theory Spec2Isabelle
  imports Complex_Main "HOL-Library.AList"
begin

section \<open>Computation graphs\<close>

text \<open>
  The functions of \<^verbatim>\<open>vl_transformer_encoder.py\<close> build a static computation graph: every
  call of a framework layer (\<^verbatim>\<open>layers.fc\<close>, \<^verbatim>\<open>layers.matmul\<close>, ...) appends an operator
  and returns the graph variable holding its output.  A graph variable is modelled as the
  term of the operators that produce it; the attributes the source passes to each layer
  are kept in the node.  The layers themselves belong to the framework, not to the
  repository: they are constructors here, and only their shape inference, which the
  source reads through \<^verbatim>\<open>x.shape\<close>, is given a definition.

  The errors are the exceptions of Python that the source raises itself, by a \<^verbatim>\<open>raise\<close>
  statement or in its own arithmetic, indexing and variable look-up.  An exception raised
  inside a call of a framework layer is \<open>Framework_error\<close>; it occurs only where the
  framework is allowed to refuse an operator, in the section on multi-head attention under
  such a framework.
\<close>

datatype error =
  ValueError | ZeroDivisionError | TypeError | IndexError | UnboundLocalError | Framework_error

definition bnd :: "error + 'a \<Rightarrow> ('a \<Rightarrow> error + 'b) \<Rightarrow> error + 'b" where
  "bnd m f = (case m of Inl e \<Rightarrow> Inl e | Inr x \<Rightarrow> f x)"

text \<open>\<^verbatim>\<open>fluid.initializer.Constant(c)\<close>, or any other initializer object handed in by the
  caller as \<^verbatim>\<open>param_initializer\<close>.\<close>

datatype initializer = Constant real | Initializer string

text \<open>\<^verbatim>\<open>fluid.ParamAttr(name=..., initializer=...)\<close>: the name selects the learned parameter.\<close>

datatype param_attr = ParamAttr string "initializer option"

datatype var =
    Data string "int list"
    \<comment> \<open>a fed input with its static shape; an unknown extent is \<open>-1\<close>\<close>
  | Fc var int nat "string option" param_attr string
    \<comment> \<open>\<^verbatim>\<open>layers.fc(input, size, num_flatten_dims, act, param_attr, bias_attr)\<close>\<close>
  | Scale var real
    \<comment> \<open>\<^verbatim>\<open>layers.scale(x, scale)\<close>\<close>
  | Matmul var var bool
    \<comment> \<open>\<^verbatim>\<open>layers.matmul(x, y, transpose_y)\<close>\<close>
  | Elementwise_add var var
    \<comment> \<open>\<^verbatim>\<open>x + y\<close> on graph variables\<close>
  | Softmax var
  | Dropout var real int
    \<comment> \<open>\<^verbatim>\<open>layers.dropout(x, dropout_prob, "upscale_in_train", seed, is_test=False)\<close>\<close>
  | Reshape var "int list"
  | Transpose var "nat list"
  | Layer_norm var int param_attr param_attr
    \<comment> \<open>\<^verbatim>\<open>layers.layer_norm(x, begin_norm_axis, param_attr, bias_attr)\<close>\<close>
  | Concat "var list" nat

subsection \<open>Static shapes\<close>

text \<open>
  Shape inference of the framework, as its documentation gives it.  A fully connected
  layer keeps the first \<^verbatim>\<open>num_flatten_dims\<close> extents and appends \<^verbatim>\<open>size\<close>; a matrix product
  keeps the leading extents of its left operand; in the target of a reshape the value
  \<open>0\<close> copies the extent of the input at the same position (the source says so beside
  each reshape); a transpose permutes the extents.

  An elementwise sum broadcasts its operands against each other: the shapes are aligned at
  their last axes, the shorter one is filled up with extents \<open>1\<close> in front, and the result has
  the rank of the operand of higher rank, whichever side it stands on.  On every axis the
  result has the larger of the two extents when one of them exceeds \<open>1\<close> or both are \<open>1\<close>,
  and the unknown extent \<open>-1\<close> otherwise.  Two extents that differ and both exceed \<open>1\<close> do
  not broadcast; the framework refuses such a sum, and the larger extent stands for it
  here.
\<close>

definition dim_at :: "int list \<Rightarrow> nat \<Rightarrow> int" where
  "dim_at s i = (if i < length s then s ! i else - 1)"

definition reshape_shape :: "int list \<Rightarrow> int list \<Rightarrow> int list" where
  "reshape_shape s target =
     map (\<lambda>i. if target ! i = 0 then dim_at s i else target ! i) [0..<length target]"

definition concat_dim :: "int \<Rightarrow> int \<Rightarrow> int" where
  "concat_dim a b = (if a < 0 \<or> b < 0 then - 1 else a + b)"

definition broadcast_dim :: "int \<Rightarrow> int \<Rightarrow> int" where
  "broadcast_dim a b = (if 1 < a \<or> 1 < b \<or> (a = 1 \<and> b = 1) then max a b else - 1)"

definition broadcast_shape :: "int list \<Rightarrow> int list \<Rightarrow> int list" where
  "broadcast_shape s t =
     (let n = max (length s) (length t)
      in map2 broadcast_dim (replicate (n - length s) 1 @ s) (replicate (n - length t) 1 @ t))"

fun shape :: "var \<Rightarrow> int list" where
  "shape (Data n s) = s"
| "shape (Fc x size' num_flatten_dims act w b) = take num_flatten_dims (shape x) @ [size']"
| "shape (Scale x c) = shape x"
| "shape (Matmul x y transpose_y) =
     butlast (shape x) @
       [if transpose_y then dim_at (shape y) (length (shape y) - 2)
        else dim_at (shape y) (length (shape y) - 1)]"
| "shape (Elementwise_add x y) = broadcast_shape (shape x) (shape y)"
| "shape (Softmax x) = shape x"
| "shape (Dropout x p seed) = shape x"
| "shape (Reshape x target) = reshape_shape (shape x) target"
| "shape (Transpose x perm) = map (dim_at (shape x)) perm"
| "shape (Layer_norm x axis w b) = shape x"
| "shape (Concat xs axis) =
     (case xs of [] \<Rightarrow> []
      | x # rest \<Rightarrow> foldl (\<lambda>s y. s[axis := concat_dim (dim_at s axis) (dim_at (shape y) axis)])
                       (shape x) rest)"

section \<open>Return values\<close>

text \<open>
  Every function of the file takes a flag \<^verbatim>\<open>debug\<close>: when it is set the function returns
  a dictionary of named graph variables instead of its result.  A Python dictionary keeps
  the insertion order of its keys and overwrites in place, as \<^const>\<open>AList.update\<close> does.
\<close>

datatype 'a ret = Value 'a | Debug_dict "(string \<times> var) list"

text \<open>The callers inside the file never set \<^verbatim>\<open>debug\<close> and use the result as a variable.\<close>

fun value_of :: "'a ret \<Rightarrow> error + 'a" where
  "value_of (Value x) = Inr x"
| "value_of (Debug_dict d) = Inl TypeError"

section \<open>Multi-head attention\<close>

text \<open>The dictionary \<^verbatim>\<open>cache\<close> with its two entries \<^verbatim>\<open>"k"\<close> and \<^verbatim>\<open>"v"\<close>.\<close>

datatype cache = Cache (cache_k: var) (cache_v: var)

definition compute_qkv ::
  "var \<Rightarrow> var \<Rightarrow> var \<Rightarrow> int \<Rightarrow> int \<Rightarrow> int \<Rightarrow> initializer option \<Rightarrow> string \<Rightarrow> var \<times> var \<times> var" where
  "compute_qkv queries keys values n_head d_key d_value param_initializer name =
     (let q = Fc queries (d_key * n_head) 2 None
                (ParamAttr (name @ ''_query_fc.w_0'') param_initializer) (name @ ''_query_fc.b_0'');
          k = Fc keys (d_key * n_head) 2 None
                (ParamAttr (name @ ''_key_fc.w_0'') param_initializer) (name @ ''_key_fc.b_0'');
          v = Fc values (d_value * n_head) 2 None
                (ParamAttr (name @ ''_value_fc.w_0'') param_initializer) (name @ ''_value_fc.b_0'')
      in (q, k, v))"

text \<open>\<^verbatim>\<open>x.shape[-1]\<close> raises on an empty shape, \<^verbatim>\<open>hidden_size // n_head\<close> on \<^verbatim>\<open>n_head == 0\<close>;
  \<^verbatim>\<open>//\<close> is the floor division, which \<^term>\<open>(div)\<close> is on \<^typ>\<open>int\<close>.\<close>

definition split_heads :: "var \<Rightarrow> int \<Rightarrow> error + var" where
  "split_heads x n_head =
     (if shape x = [] then Inl IndexError
      else let hidden_size = last (shape x)
           in if n_head = 0 then Inl ZeroDivisionError
              else let reshaped = Reshape x [0, 0, n_head, hidden_size div n_head]
                   in Inr (Transpose reshaped [0, 2, 1, 3]))"

definition combine_heads :: "var \<Rightarrow> error + var" where
  "combine_heads x =
     (if length (shape x) = 3 then Inr x
      else if length (shape x) \<noteq> 4 then Inl ValueError
      else let trans_x = Transpose x [0, 2, 1, 3]
           in Inr (Reshape trans_x [0, 0, shape trans_x ! 2 * shape trans_x ! 3]))"

text \<open>
  \<^verbatim>\<open>d_key ** -0.5\<close>: Python raises \<^verbatim>\<open>ZeroDivisionError\<close> for \<^verbatim>\<open>0 ** -0.5\<close>, and the power of a
  negative integer is a complex number, which \<^verbatim>\<open>layers.scale\<close> cannot convert to its
  float attribute.
\<close>

definition pow_neg_half :: "int \<Rightarrow> error + real" where
  "pow_neg_half d =
     (if d = 0 then Inl ZeroDivisionError
      else if d < 0 then Inl TypeError
      else Inr (real_of_int d powr (- 1 / 2)))"

text \<open>
  \<^verbatim>\<open>if attn_bias:\<close> tests the truth value of the argument: \<^verbatim>\<open>None\<close> is false, and a graph
  variable, an object without a truth-value method, is true.  \<^verbatim>\<open>if dropout_rate:\<close> is
  false exactly for a zero rate.
\<close>

definition scaled_dot_product_attention ::
  "var \<Rightarrow> var \<Rightarrow> var \<Rightarrow> var option \<Rightarrow> int \<Rightarrow> real \<Rightarrow> int \<Rightarrow> error + var" where
  "scaled_dot_product_attention q k v attn_bias d_key dropout_rate seed =
     bnd (pow_neg_half d_key) (\<lambda>c.
       let scaled_q = Scale q c;
           product = Matmul scaled_q k True;
           product = (case attn_bias of None \<Rightarrow> product | Some b \<Rightarrow> Elementwise_add product b);
           weights = Softmax product;
           weights = (if dropout_rate \<noteq> 0 then Dropout weights dropout_rate seed else weights)
       in Inr (Matmul weights v False))"

definition multi_head_attention ::
  "var \<Rightarrow> var option \<Rightarrow> var option \<Rightarrow> var option \<Rightarrow> int \<Rightarrow> int \<Rightarrow> int \<Rightarrow> int \<Rightarrow> real \<Rightarrow>
   cache option \<Rightarrow> initializer option \<Rightarrow> int \<Rightarrow> string \<Rightarrow> bool \<Rightarrow> error + (var ret \<times> cache option)" where
  "multi_head_attention queries keys values attn_bias d_key d_value d_model n_head dropout_rate
       cache param_initializer seed name debug =
     (let keys = (case keys of None \<Rightarrow> queries | Some k \<Rightarrow> k);
          values = (case values of None \<Rightarrow> keys | Some v \<Rightarrow> v)
      in if \<not> (length (shape queries) = 3 \<and> length (shape keys) = 3 \<and> length (shape values) = 3)
         then Inl ValueError
         else
           case compute_qkv queries keys values n_head d_key d_value param_initializer name of
             (q, k, v) \<Rightarrow>
           let (k, v, cache) =
                 (case cache of
                    None \<Rightarrow> (k, v, None)
                  | Some c \<Rightarrow>
                      let k = Concat [Reshape (cache_k c) [0, 0, d_model], k] 1;
                          v = Concat [Reshape (cache_v c) [0, 0, d_model], v] 1
                      in (k, v, Some (Cache k v)))
           in bnd (split_heads q n_head) (\<lambda>q_heads.
              bnd (split_heads k n_head) (\<lambda>k_heads.
              bnd (split_heads v n_head) (\<lambda>v_heads.
              bnd (scaled_dot_product_attention q_heads k_heads v_heads attn_bias d_key
                     dropout_rate seed) (\<lambda>ctx_multiheads.
              bnd (combine_heads ctx_multiheads) (\<lambda>out.
                let proj_out = Fc out d_model 2 None
                                 (ParamAttr (name @ ''_output_fc.w_0'') param_initializer)
                                 (name @ ''_output_fc.b_0'')
                in Inr (if debug then Debug_dict [(''proj_out'', proj_out)] else Value proj_out,
                        cache)))))))"

text \<open>The attention output as the callers in the file use it: the returned variable.\<close>

definition result_of :: "error + ('a ret \<times> cache option) \<Rightarrow> error + 'a" where
  "result_of m = bnd m (\<lambda>(r, c). value_of r)"

section \<open>Multi-head attention when the framework refuses an operator\<close>

text \<open>
  Every layer of the framework checks its operands when it is called and raises an
  exception when it refuses them: extents that do not broadcast, a reshape that changes the
  number of elements, a permutation of the wrong length, a size that is not positive.
  These checks are the framework's and not the repository's, so they are a parameter here:
  \<open>accepts\<close> tells for every operator whether the framework builds it.  The source catches
  no exception, so a refusal ends the call; it is the error \<^const>\<open>Framework_error\<close>, whatever
  the Python class of the exception, and \<^const>\<open>ValueError\<close> stays the exception of the two
  \<^verbatim>\<open>raise\<close> statements of \<^verbatim>\<open>multi_head_attention\<close>.  The functions below are the same source
  lines as in the previous section, with every framework call passed through \<^verbatim>\<open>build\<close>
  in the order in which Python evaluates them.
\<close>

definition build :: "(var \<Rightarrow> bool) \<Rightarrow> var \<Rightarrow> error + var" where
  "build accepts x = (if accepts x then Inr x else Inl Framework_error)"

definition compute_qkv_checked ::
  "(var \<Rightarrow> bool) \<Rightarrow> var \<Rightarrow> var \<Rightarrow> var \<Rightarrow> int \<Rightarrow> int \<Rightarrow> int \<Rightarrow> initializer option \<Rightarrow> string \<Rightarrow>
   error + var \<times> var \<times> var" where
  "compute_qkv_checked accepts queries keys values n_head d_key d_value param_initializer name =
     bnd (build accepts (Fc queries (d_key * n_head) 2 None
            (ParamAttr (name @ ''_query_fc.w_0'') param_initializer) (name @ ''_query_fc.b_0'')))
       (\<lambda>q.
     bnd (build accepts (Fc keys (d_key * n_head) 2 None
            (ParamAttr (name @ ''_key_fc.w_0'') param_initializer) (name @ ''_key_fc.b_0'')))
       (\<lambda>k.
     bnd (build accepts (Fc values (d_value * n_head) 2 None
            (ParamAttr (name @ ''_value_fc.w_0'') param_initializer) (name @ ''_value_fc.b_0'')))
       (\<lambda>v. Inr (q, k, v))))"

definition split_heads_checked :: "(var \<Rightarrow> bool) \<Rightarrow> var \<Rightarrow> int \<Rightarrow> error + var" where
  "split_heads_checked accepts x n_head =
     (if shape x = [] then Inl IndexError
      else let hidden_size = last (shape x)
           in if n_head = 0 then Inl ZeroDivisionError
              else bnd (build accepts (Reshape x [0, 0, n_head, hidden_size div n_head]))
                     (\<lambda>reshaped. build accepts (Transpose reshaped [0, 2, 1, 3])))"

definition combine_heads_checked :: "(var \<Rightarrow> bool) \<Rightarrow> var \<Rightarrow> error + var" where
  "combine_heads_checked accepts x =
     (if length (shape x) = 3 then Inr x
      else if length (shape x) \<noteq> 4 then Inl ValueError
      else bnd (build accepts (Transpose x [0, 2, 1, 3])) (\<lambda>trans_x.
             build accepts (Reshape trans_x [0, 0, shape trans_x ! 2 * shape trans_x ! 3])))"

definition scaled_dot_product_attention_checked ::
  "(var \<Rightarrow> bool) \<Rightarrow> var \<Rightarrow> var \<Rightarrow> var \<Rightarrow> var option \<Rightarrow> int \<Rightarrow> real \<Rightarrow> int \<Rightarrow> error + var" where
  "scaled_dot_product_attention_checked accepts q k v attn_bias d_key dropout_rate seed =
     bnd (pow_neg_half d_key) (\<lambda>c.
     bnd (build accepts (Scale q c)) (\<lambda>scaled_q.
     bnd (build accepts (Matmul scaled_q k True)) (\<lambda>product.
     bnd (case attn_bias of
            None \<Rightarrow> Inr product
          | Some b \<Rightarrow> build accepts (Elementwise_add product b)) (\<lambda>product.
     bnd (build accepts (Softmax product)) (\<lambda>weights.
     bnd (if dropout_rate \<noteq> 0 then build accepts (Dropout weights dropout_rate seed)
          else Inr weights) (\<lambda>weights.
       build accepts (Matmul weights v False)))))))"

definition multi_head_attention_checked ::
  "(var \<Rightarrow> bool) \<Rightarrow> var \<Rightarrow> var option \<Rightarrow> var option \<Rightarrow> var option \<Rightarrow> int \<Rightarrow> int \<Rightarrow> int \<Rightarrow> int \<Rightarrow>
   real \<Rightarrow> cache option \<Rightarrow> initializer option \<Rightarrow> int \<Rightarrow> string \<Rightarrow> bool \<Rightarrow>
   error + (var ret \<times> cache option)" where
  "multi_head_attention_checked accepts queries keys values attn_bias d_key d_value d_model
       n_head dropout_rate cache param_initializer seed name debug =
     (let keys = (case keys of None \<Rightarrow> queries | Some k \<Rightarrow> k);
          values = (case values of None \<Rightarrow> keys | Some v \<Rightarrow> v)
      in if \<not> (length (shape queries) = 3 \<and> length (shape keys) = 3 \<and> length (shape values) = 3)
         then Inl ValueError
         else
           bnd (compute_qkv_checked accepts queries keys values n_head d_key d_value
                  param_initializer name) (\<lambda>(q, k, v).
           bnd (case cache of
                  None \<Rightarrow> Inr (k, v, None)
                | Some c \<Rightarrow>
                    bnd (build accepts (Reshape (cache_k c) [0, 0, d_model])) (\<lambda>old_k.
                    bnd (build accepts (Concat [old_k, k] 1)) (\<lambda>k.
                    bnd (build accepts (Reshape (cache_v c) [0, 0, d_model])) (\<lambda>old_v.
                    bnd (build accepts (Concat [old_v, v] 1)) (\<lambda>v.
                      Inr (k, v, Some (Cache k v))))))) (\<lambda>(k, v, cache).
           bnd (split_heads_checked accepts q n_head) (\<lambda>q_heads.
           bnd (split_heads_checked accepts k n_head) (\<lambda>k_heads.
           bnd (split_heads_checked accepts v n_head) (\<lambda>v_heads.
           bnd (scaled_dot_product_attention_checked accepts q_heads k_heads v_heads attn_bias
                  d_key dropout_rate seed) (\<lambda>ctx_multiheads.
           bnd (combine_heads_checked accepts ctx_multiheads) (\<lambda>out.
           bnd (build accepts (Fc out d_model 2 None
                  (ParamAttr (name @ ''_output_fc.w_0'') param_initializer)
                  (name @ ''_output_fc.b_0''))) (\<lambda>proj_out.
             Inr (if debug then Debug_dict [(''proj_out'', proj_out)] else Value proj_out,
                  cache))))))))))"

text \<open>
  One such framework, for illustration: it checks the extents of an elementwise sum, which
  must agree on every axis unless one of them is at most \<open>1\<close>, and builds every other
  operator.
\<close>

definition broadcastable :: "int list \<Rightarrow> int list \<Rightarrow> bool" where
  "broadcastable s t =
     (let n = max (length s) (length t)
      in list_all2 (\<lambda>a b. a = b \<or> a \<le> 1 \<or> b \<le> 1)
           (replicate (n - length s) 1 @ s) (replicate (n - length t) 1 @ t))"

definition checks_sums :: "var \<Rightarrow> bool" where
  "checks_sums x =
     (case x of Elementwise_add a b \<Rightarrow> broadcastable (shape a) (shape b) | _ \<Rightarrow> True)"

section \<open>Position-wise feed-forward network\<close>

definition positionwise_feed_forward ::
  "var \<Rightarrow> int \<Rightarrow> int \<Rightarrow> real \<Rightarrow> string option \<Rightarrow> initializer option \<Rightarrow> int \<Rightarrow> string \<Rightarrow> bool \<Rightarrow>
   var ret" where
  "positionwise_feed_forward x d_inner_hid d_hid dropout_rate hidden_act param_initializer seed
       name debug =
     (let hidden = Fc x d_inner_hid 2 hidden_act
                     (ParamAttr (name @ ''_fc_0.w_0'') param_initializer) (name @ ''_fc_0.b_0'');
          hidden = (if dropout_rate \<noteq> 0 then Dropout hidden dropout_rate seed else hidden);
          out = Fc hidden d_hid 2 None
                  (ParamAttr (name @ ''_fc_1.w_0'') param_initializer) (name @ ''_fc_1.b_0'')
      in if debug then Debug_dict [(''hidden'', hidden), (''out'', out)] else Value out)"

section \<open>Pre- and post-processing\<close>

text \<open>One command of \<^verbatim>\<open>process_cmd\<close>; \<^verbatim>\<open>out + prev_out if prev_out else out\<close> tests the truth
  value of \<^verbatim>\<open>prev_out\<close>, and a character other than \<^verbatim>\<open>a\<close>, \<^verbatim>\<open>n\<close>, \<^verbatim>\<open>d\<close> matches no branch.\<close>

definition process_step :: "var option \<Rightarrow> real \<Rightarrow> int \<Rightarrow> string \<Rightarrow> char \<Rightarrow> var \<Rightarrow> var" where
  "process_step prev_out dropout_rate seed name cmd out =
     (if cmd = CHR ''a'' then
        (case prev_out of None \<Rightarrow> out | Some p \<Rightarrow> Elementwise_add out p)
      else if cmd = CHR ''n'' then
        Layer_norm out (int (length (shape out)) - 1)
          (ParamAttr (name @ ''_layer_norm_scale'') (Some (Constant 1)))
          (ParamAttr (name @ ''_layer_norm_bias'') (Some (Constant 0)))
      else if cmd = CHR ''d'' then
        (if dropout_rate \<noteq> 0 then Dropout out dropout_rate seed else out)
      else out)"

text \<open>The loop \<^verbatim>\<open>for cmd in process_cmd\<close> over the state \<^verbatim>\<open>(out, debug_dict)\<close>.\<close>

fun process_loop ::
  "var option \<Rightarrow> real \<Rightarrow> int \<Rightarrow> string \<Rightarrow> bool \<Rightarrow> string \<Rightarrow> var \<times> (string \<times> var) list \<Rightarrow>
   var \<times> (string \<times> var) list" where
  "process_loop prev_out dropout_rate seed name debug [] st = st"
| "process_loop prev_out dropout_rate seed name debug (cmd # cmds) (out, debug_dict) =
     (let out = process_step prev_out dropout_rate seed name cmd out;
          debug_dict = (if debug then AList.update (''out_'' @ [cmd]) out debug_dict
                        else debug_dict)
      in process_loop prev_out dropout_rate seed name debug cmds (out, debug_dict))"

definition pre_post_process_layer ::
  "var option \<Rightarrow> var \<Rightarrow> string \<Rightarrow> real \<Rightarrow> int \<Rightarrow> string \<Rightarrow> bool \<Rightarrow> var ret" where
  "pre_post_process_layer prev_out out process_cmd dropout_rate seed name debug =
     (case process_loop prev_out dropout_rate seed name debug process_cmd (out, []) of
        (out, debug_dict) \<Rightarrow>
          if debug then Debug_dict (AList.update ''out'' out debug_dict) else Value out)"

text \<open>\<^verbatim>\<open>pre_process_layer = partial(pre_post_process_layer, None)\<close> and
  \<^verbatim>\<open>post_process_layer = pre_post_process_layer\<close>.\<close>

definition pre_process_layer :: "var \<Rightarrow> string \<Rightarrow> real \<Rightarrow> int \<Rightarrow> string \<Rightarrow> bool \<Rightarrow> var ret" where
  "pre_process_layer = pre_post_process_layer None"

definition post_process_layer ::
  "var option \<Rightarrow> var \<Rightarrow> string \<Rightarrow> real \<Rightarrow> int \<Rightarrow> string \<Rightarrow> bool \<Rightarrow> var ret" where
  "post_process_layer = pre_post_process_layer"

section \<open>Co-attention layer\<close>

text \<open>
  \<^verbatim>\<open>attn_vl_bias\<close> is handed to \<^verbatim>\<open>layers.transpose\<close> unconditionally, so it is a graph
  variable; the residual inputs \<^verbatim>\<open>enc_input\<close> and \<^verbatim>\<open>enc_vl_input\<close> are passed as the previous
  output of the post-processing.
\<close>

definition encoder_co_layer ::
  "var \<Rightarrow> var \<Rightarrow> var \<Rightarrow> int \<Rightarrow> int \<Rightarrow> int \<Rightarrow> int \<Rightarrow> int \<Rightarrow> int \<Rightarrow> int \<Rightarrow> int \<Rightarrow> real \<Rightarrow> real \<Rightarrow> real \<Rightarrow>
   string option \<Rightarrow> string \<Rightarrow> string \<Rightarrow> initializer option \<Rightarrow> int \<Rightarrow> string \<Rightarrow> bool \<Rightarrow>
   error + (var \<times> var) ret" where
  "encoder_co_layer enc_input enc_vl_input attn_vl_bias co_head co_key co_value co_model d_model
       d_inner_hid v_model v_inner_hid prepostprocess_dropout attention_dropout relu_dropout
       hidden_act preprocess_cmd postprocess_cmd param_initializer seed name debug =
     bnd (value_of (pre_process_layer enc_input preprocess_cmd prepostprocess_dropout seed
            (name @ ''_pre_att'') False)) (\<lambda>enc_input_pre.
     bnd (value_of (pre_process_layer enc_vl_input preprocess_cmd prepostprocess_dropout seed
            (name @ ''_vl_pre_att'') False)) (\<lambda>enc_input_vl_pre.
     bnd (result_of (multi_head_attention enc_input_pre (Some enc_input_vl_pre)
            (Some enc_input_vl_pre) (Some (Transpose attn_vl_bias [0, 1, 3, 2])) co_key co_value
            d_model co_head attention_dropout None param_initializer seed
            (name @ ''_multi_head_att'') False)) (\<lambda>attn_output.
     bnd (result_of (multi_head_attention enc_input_vl_pre (Some enc_input_pre)
            (Some enc_input_pre) (Some attn_vl_bias) co_key co_value
            v_model co_head attention_dropout None param_initializer seed
            (name @ ''_vl_multi_head_att'') False)) (\<lambda>attn_vl_output.
     bnd (value_of (post_process_layer (Some enc_input) attn_output postprocess_cmd
            prepostprocess_dropout seed (name @ ''_post_att'') False)) (\<lambda>attn_output.
     bnd (value_of (post_process_layer (Some enc_vl_input) attn_vl_output postprocess_cmd
            prepostprocess_dropout seed (name @ ''_vl_post_att'') False)) (\<lambda>attn_vl_output.
     bnd (value_of (pre_process_layer attn_output preprocess_cmd prepostprocess_dropout seed
            (name @ ''_pre_ffn'') False)) (\<lambda>ffd_input.
     bnd (value_of (positionwise_feed_forward ffd_input d_inner_hid d_model relu_dropout
            hidden_act param_initializer seed (name @ ''_ffn'') False)) (\<lambda>ffd_output.
     bnd (value_of (pre_process_layer attn_vl_output preprocess_cmd prepostprocess_dropout seed
            (name @ ''_pre_vl_ffn'') False)) (\<lambda>ffd_vl_input.
     bnd (value_of (positionwise_feed_forward ffd_vl_input v_inner_hid v_model relu_dropout
            hidden_act param_initializer seed (name @ ''_vl_ffn'') False)) (\<lambda>ffd_vl_output.
     bnd (value_of (post_process_layer (Some attn_output) ffd_output postprocess_cmd
            prepostprocess_dropout seed (name @ ''_post_ffn'') False)) (\<lambda>enc_output.
     bnd (value_of (post_process_layer (Some attn_vl_output) ffd_vl_output postprocess_cmd
            prepostprocess_dropout seed (name @ ''_vl_post_ffn'') False)) (\<lambda>enc_vl_output.
       Inr (if debug
            then Debug_dict [(''enc_output'', enc_output), (''enc_vl_output'', enc_vl_output)]
            else Value (enc_output, enc_vl_output))))))))))))))"

section \<open>Single-stream encoder layer\<close>

definition encoder_layer ::
  "var \<Rightarrow> var option \<Rightarrow> int \<Rightarrow> int \<Rightarrow> int \<Rightarrow> int \<Rightarrow> int \<Rightarrow> real \<Rightarrow> real \<Rightarrow> real \<Rightarrow>
   string option \<Rightarrow> string \<Rightarrow> string \<Rightarrow> initializer option \<Rightarrow> int \<Rightarrow> string \<Rightarrow> bool \<Rightarrow>
   error + var ret" where
  "encoder_layer enc_input attn_bias n_head d_key d_value d_model d_inner_hid
       prepostprocess_dropout attention_dropout relu_dropout hidden_act preprocess_cmd
       postprocess_cmd param_initializer seed name debug =
     bnd (value_of (pre_process_layer enc_input preprocess_cmd prepostprocess_dropout seed
            (name @ ''_pre_att'') False)) (\<lambda>attn_input.
     bnd (result_of (multi_head_attention attn_input None None attn_bias d_key d_value d_model
            n_head attention_dropout None param_initializer seed
            (name @ ''_multi_head_att'') False)) (\<lambda>attn_output.
     bnd (value_of (post_process_layer (Some enc_input) attn_output postprocess_cmd
            prepostprocess_dropout seed (name @ ''_post_att'') False)) (\<lambda>attn_output.
     bnd (value_of (pre_process_layer attn_output preprocess_cmd prepostprocess_dropout seed
            (name @ ''_pre_ffn'') False)) (\<lambda>ffd_input.
     bnd (value_of (positionwise_feed_forward ffd_input d_inner_hid d_model relu_dropout
            hidden_act param_initializer seed (name @ ''_ffn'') False)) (\<lambda>ffd_output.
     bnd (value_of (post_process_layer (Some attn_output) ffd_output postprocess_cmd
            prepostprocess_dropout seed (name @ ''_post_ffn'') False)) (\<lambda>post_ffd.
       Inr (if debug then Debug_dict [(''attn_output'', attn_output), (''post_ffd'', post_ffd)]
            else Value post_ffd)))))))"

section \<open>The two-stream encoder\<close>

text \<open>\<^verbatim>\<open>str(idx)\<close> for an integer: its decimal digits, after a minus sign when negative.\<close>

fun digits :: "nat \<Rightarrow> string" where
  "digits n = (if n < 10 then [char_of (48 + n)] else digits (n div 10) @ [char_of (48 + n mod 10)])"

definition str :: "int \<Rightarrow> string" where
  "str i = (if i < 0 then CHR ''-'' # digits (nat (- i)) else digits (nat i))"

text \<open>A \<^verbatim>\<open>for\<close> loop over a list: the body updates the loop state, an exception leaves the loop.\<close>

fun for_each :: "'i list \<Rightarrow> ('i \<Rightarrow> 's \<Rightarrow> error + 's) \<Rightarrow> 's \<Rightarrow> error + 's" where
  "for_each [] body s = Inr s"
| "for_each (i # rest) body s = bnd (body i s) (for_each rest body)"

text \<open>\<^verbatim>\<open>range(a, b)\<close> on integers is \<^term>\<open>[a..b - 1]\<close>, empty when \<^term>\<open>b \<le> a\<close>.\<close>

definition range_int :: "int \<Rightarrow> int \<Rightarrow> int list" where
  "range_int a b = [a..b - 1]"

text \<open>
  The local variables \<^verbatim>\<open>enc_output\<close>, \<^verbatim>\<open>enc_vl_output\<close>, \<^verbatim>\<open>v_end\<close> and \<^verbatim>\<open>t_end\<close> are bound
  only inside the loop: they are optional in the loop state, and reading an unbound one
  after the loop raises \<^verbatim>\<open>UnboundLocalError\<close>.  The loop state is the tuple
  \<^verbatim>\<open>(enc_input, enc_vl_input, enc_output, enc_vl_output, v_start, t_start, block, v_end, t_end)\<close>.
\<close>

type_synonym loop_state =
  "var \<times> var \<times> var option \<times> var option \<times> int \<times> int \<times> int \<times> int option \<times> int option"

text \<open>The loop \<^verbatim>\<open>for v_layer_id, t_layer_id in zip(v_biattention_id, t_biattention_id)\<close>.\<close>

definition encoder_loop ::
  "var \<Rightarrow> var \<Rightarrow> var option \<Rightarrow> var option \<Rightarrow> var \<Rightarrow>
   int \<Rightarrow> int \<Rightarrow> int \<Rightarrow> int \<Rightarrow> int \<Rightarrow>
   int \<Rightarrow> int \<Rightarrow> int \<Rightarrow> int \<Rightarrow> int \<Rightarrow>
   int \<Rightarrow> int \<Rightarrow> int \<Rightarrow> int \<Rightarrow>
   real \<Rightarrow> real \<Rightarrow> real \<Rightarrow> string option \<Rightarrow> string \<Rightarrow> string \<Rightarrow> initializer option \<Rightarrow>
   int list \<Rightarrow> int list \<Rightarrow> int \<Rightarrow> string \<Rightarrow> error + loop_state" where
  "encoder_loop enc_input enc_vl_input attn_bias attn_image_bias attn_vl_bias
       n_head d_key d_value d_model d_inner_hid
       v_head v_key v_value v_model v_inner_hid
       co_head co_key co_value co_model
       prepostprocess_dropout attention_dropout relu_dropout hidden_act preprocess_cmd
       postprocess_cmd param_initializer v_biattention_id t_biattention_id seed name =
     for_each (zip v_biattention_id t_biattention_id)
       (\<lambda>(v_layer_id, t_layer_id)
          (enc_input, enc_vl_input, enc_output, enc_vl_output, v_start, t_start, block,
           v_end, t_end).
          let v_end = v_layer_id; t_end = t_layer_id
          in bnd (for_each (range_int t_start t_end)
                    (\<lambda>idx (enc_input, enc_output).
                       bnd (bnd (encoder_layer enc_input attn_bias n_head d_key d_value
                              d_model d_inner_hid prepostprocess_dropout attention_dropout
                              relu_dropout hidden_act preprocess_cmd postprocess_cmd
                              param_initializer seed (name @ ''_layer_'' @ str idx) False)
                              value_of)
                         (\<lambda>enc_output. Inr (enc_output, Some enc_output)))
                    (enc_input, enc_output)) (\<lambda>(enc_input, enc_output).
             bnd (for_each (range_int v_start v_end)
                    (\<lambda>idx (enc_vl_input, enc_vl_output).
                       bnd (bnd (encoder_layer enc_vl_input attn_image_bias v_head v_key
                              v_value v_model v_inner_hid prepostprocess_dropout
                              attention_dropout relu_dropout hidden_act preprocess_cmd
                              postprocess_cmd param_initializer seed
                              (name @ ''_vlayer_'' @ str idx) False) value_of)
                         (\<lambda>enc_vl_output. Inr (enc_vl_output, Some enc_vl_output)))
                    (enc_vl_input, enc_vl_output)) (\<lambda>(enc_vl_input, enc_vl_output).
             bnd (bnd (encoder_co_layer enc_input enc_vl_input attn_vl_bias co_head co_key
                    co_value co_model d_model d_inner_hid v_model v_inner_hid
                    prepostprocess_dropout attention_dropout relu_dropout hidden_act
                    preprocess_cmd postprocess_cmd param_initializer seed
                    (name @ ''_colayer_'' @ str block) False) value_of)
               (\<lambda>(enc_output, enc_vl_output).
                  Inr (enc_output, enc_vl_output, Some enc_output, Some enc_vl_output,
                       v_end, t_end, block + 1, Some v_end, Some t_end)))))
       (enc_input, enc_vl_input, None, None, 0, 0, 0, None, None)"

text \<open>
  The function \<^verbatim>\<open>encoder\<close>: the loop, then the code after it.  The arguments of a call are
  evaluated from left to right, so \<^verbatim>\<open>enc_output\<close> is read before \<^verbatim>\<open>t_end\<close>.  The arguments
  \<^verbatim>\<open>n_layer\<close> and \<^verbatim>\<open>co_inner_hid\<close> are accepted and, as in the source, not used.
\<close>

definition encoder ::
  "var \<Rightarrow> var \<Rightarrow> var option \<Rightarrow> var option \<Rightarrow> var \<Rightarrow> int \<Rightarrow>
   int \<Rightarrow> int \<Rightarrow> int \<Rightarrow> int \<Rightarrow> int \<Rightarrow>
   int \<Rightarrow> int \<Rightarrow> int \<Rightarrow> int \<Rightarrow> int \<Rightarrow>
   int \<Rightarrow> int \<Rightarrow> int \<Rightarrow> int \<Rightarrow> int \<Rightarrow>
   real \<Rightarrow> real \<Rightarrow> real \<Rightarrow> string option \<Rightarrow> string \<Rightarrow> string \<Rightarrow> initializer option \<Rightarrow>
   int list \<Rightarrow> int list \<Rightarrow> int \<Rightarrow> string \<Rightarrow> bool \<Rightarrow> error + (var \<times> var) ret" where
  "encoder enc_input enc_vl_input attn_bias attn_image_bias attn_vl_bias n_layer
       n_head d_key d_value d_model d_inner_hid
       v_head v_key v_value v_model v_inner_hid
       co_head co_key co_value co_model co_inner_hid
       prepostprocess_dropout attention_dropout relu_dropout hidden_act preprocess_cmd
       postprocess_cmd param_initializer v_biattention_id t_biattention_id seed name debug =
     bnd (encoder_loop enc_input enc_vl_input attn_bias attn_image_bias attn_vl_bias
            n_head d_key d_value d_model d_inner_hid
            v_head v_key v_value v_model v_inner_hid
            co_head co_key co_value co_model
            prepostprocess_dropout attention_dropout relu_dropout hidden_act preprocess_cmd
            postprocess_cmd param_initializer v_biattention_id t_biattention_id seed name)
       (\<lambda>(enc_input, enc_vl_input, enc_output, enc_vl_output, v_start, t_start, block,
           v_end, t_end).
          (case enc_output of
             None \<Rightarrow> Inl UnboundLocalError
           | Some enc_output \<Rightarrow>
          (case t_end of
             None \<Rightarrow> Inl UnboundLocalError
           | Some t_end \<Rightarrow>
          bnd (bnd (encoder_layer enc_output attn_bias n_head d_key d_value d_model d_inner_hid
                 prepostprocess_dropout attention_dropout relu_dropout hidden_act preprocess_cmd
                 postprocess_cmd param_initializer seed (name @ ''_layer_'' @ str t_end) False)
                 value_of) (\<lambda>enc_output.
          (case enc_vl_output of
             None \<Rightarrow> Inl UnboundLocalError
           | Some enc_vl_output \<Rightarrow>
          (case v_end of
             None \<Rightarrow> Inl UnboundLocalError
           | Some v_end \<Rightarrow>
          bnd (bnd (encoder_layer enc_vl_output attn_image_bias v_head v_key v_value v_model
                 v_inner_hid prepostprocess_dropout attention_dropout relu_dropout hidden_act
                 preprocess_cmd postprocess_cmd param_initializer seed
                 (name @ ''_vlayer_'' @ str v_end) False) value_of) (\<lambda>enc_vl_output.
          bnd (value_of (pre_process_layer enc_output preprocess_cmd prepostprocess_dropout seed
                 ''post_encoder'' False)) (\<lambda>enc_output.
          bnd (value_of (pre_process_layer enc_vl_output preprocess_cmd prepostprocess_dropout
                 seed ''vl_post_encoder'' False)) (\<lambda>enc_vl_output.
            Inr (if debug
                 then Debug_dict [(''enc_output'', enc_output), (''enc_vl_output'', enc_vl_output)]
                 else Value (enc_output, enc_vl_output)))))))))))"

section \<open>The attention formula of the specification\<close>

text \<open>
  The precondition of the attention: after \<^verbatim>\<open>keys\<close> has defaulted to \<^verbatim>\<open>queries\<close> and \<^verbatim>\<open>values\<close>
  to \<^verbatim>\<open>keys\<close>, the three inputs are 3-D tensors.
\<close>

definition inputs_3d :: "var \<Rightarrow> var option \<Rightarrow> var option \<Rightarrow> bool" where
  "inputs_3d queries keys values =
     (let keys = (case keys of None \<Rightarrow> queries | Some k \<Rightarrow> k);
          values = (case values of None \<Rightarrow> keys | Some v \<Rightarrow> v)
      in length (shape queries) = 3 \<and> length (shape keys) = 3 \<and> length (shape values) = 3)"

text \<open>
  The attention bias as the attention expects it.  The logits of the attention are 4-D
  with the heads on the second axis, and the bias is broadcast against them: it fits
  \<open>n_head\<close> heads when it has at most four axes and the sum still has \<open>n_head\<close> heads, that is,
  when the extent of the bias on the axis of the heads (the third from the end, \<open>1\<close> for a
  bias of fewer axes) broadcasts to \<open>n_head\<close>.  No bias at all fits.
\<close>

definition bias_rank :: "var option \<Rightarrow> nat" where
  "bias_rank attn_bias = (case attn_bias of None \<Rightarrow> 0 | Some b \<Rightarrow> length (shape b))"

definition bias_fits :: "var option \<Rightarrow> int \<Rightarrow> bool" where
  "bias_fits attn_bias n_head =
     (case attn_bias of
        None \<Rightarrow> True
      | Some b \<Rightarrow>
          length (shape b) \<le> 4 \<and>
          broadcast_dim n_head
            (if 3 \<le> length (shape b) then shape b ! (length (shape b) - 3) else 1) = n_head)"

text \<open>
  The attention as the specification words it.  The per-head slices of a projection of
  width \<open>n_head * width\<close> are its reshape to \<open>n_head\<close> heads of \<open>width\<close> entries with the heads
  moved in front of the sequence positions; the logits are \<open>(Q / sqrt d_key) K\<^sup>T\<close>, to which
  the bias is added when there is one; the weights are their softmax, with dropout only
  for a nonzero rate; the heads of \<open>weights V\<close> are concatenated and projected to \<open>d_model\<close>.
\<close>

definition default_to :: "var \<Rightarrow> var option \<Rightarrow> var" where
  "default_to d x = (case x of None \<Rightarrow> d | Some y \<Rightarrow> y)"

definition heads :: "var \<Rightarrow> int \<Rightarrow> int \<Rightarrow> var" where
  "heads x n_head width = Transpose (Reshape x [0, 0, n_head, width]) [0, 2, 1, 3]"

definition attention_spec ::
  "var \<Rightarrow> var \<Rightarrow> var \<Rightarrow> var option \<Rightarrow> int \<Rightarrow> int \<Rightarrow> int \<Rightarrow> int \<Rightarrow> real \<Rightarrow> initializer option \<Rightarrow>
   int \<Rightarrow> string \<Rightarrow> var" where
  "attention_spec queries keys values attn_bias d_key d_value d_model n_head dropout_rate
       param_initializer seed name =
     (let Q = heads (Fc queries (d_key * n_head) 2 None
                 (ParamAttr (name @ ''_query_fc.w_0'') param_initializer)
                 (name @ ''_query_fc.b_0'')) n_head d_key;
          K = heads (Fc keys (d_key * n_head) 2 None
                 (ParamAttr (name @ ''_key_fc.w_0'') param_initializer)
                 (name @ ''_key_fc.b_0'')) n_head d_key;
          V = heads (Fc values (d_value * n_head) 2 None
                 (ParamAttr (name @ ''_value_fc.w_0'') param_initializer)
                 (name @ ''_value_fc.b_0'')) n_head d_value;
          logits = Matmul (Scale Q (1 / sqrt (real_of_int d_key))) K True;
          logits = (case attn_bias of None \<Rightarrow> logits | Some b \<Rightarrow> Elementwise_add logits b);
          weights = Softmax logits;
          weights = (if dropout_rate = 0 then weights else Dropout weights dropout_rate seed);
          context = Matmul weights V False;
          concatenated = Reshape (Transpose context [0, 2, 1, 3]) [0, 0, n_head * d_value]
      in Fc concatenated d_model 2 None
           (ParamAttr (name @ ''_output_fc.w_0'') param_initializer) (name @ ''_output_fc.b_0''))"

section \<open>Processing, feed-forward and co-attention as the specification words them\<close>

text \<open>
  The variable that \<^verbatim>\<open>pre_post_process_layer\<close> returns without \<^verbatim>\<open>debug\<close>: the commands applied
  to \<^verbatim>\<open>out\<close> from left to right.  The feed-forward network: a linear map to \<^verbatim>\<open>d_inner_hid\<close>
  with the activation, dropout for a nonzero rate only, and a linear map to \<^verbatim>\<open>d_hid\<close>.
\<close>

definition processed :: "var option \<Rightarrow> var \<Rightarrow> string \<Rightarrow> real \<Rightarrow> int \<Rightarrow> string \<Rightarrow> var" where
  "processed prev_out out process_cmd dropout_rate seed name =
     foldl (\<lambda>out cmd. process_step prev_out dropout_rate seed name cmd out) out process_cmd"

definition feed_forward_spec ::
  "var \<Rightarrow> int \<Rightarrow> int \<Rightarrow> real \<Rightarrow> string option \<Rightarrow> initializer option \<Rightarrow> int \<Rightarrow> string \<Rightarrow> var" where
  "feed_forward_spec x d_inner_hid d_hid dropout_rate hidden_act param_initializer seed name =
     (let hidden = Fc x d_inner_hid 2 hidden_act
                     (ParamAttr (name @ ''_fc_0.w_0'') param_initializer) (name @ ''_fc_0.b_0'');
          hidden = (if dropout_rate = 0 then hidden else Dropout hidden dropout_rate seed)
      in Fc hidden d_hid 2 None
           (ParamAttr (name @ ''_fc_1.w_0'') param_initializer) (name @ ''_fc_1.b_0''))"

text \<open>
  One stream of the co-attention layer after its attention: the attention result is
  post-processed against the stream input, passed through the stream's feed-forward
  network, and post-processed again.  The layer itself: the language stream attends to
  the vision stream under the transposed bias, the vision stream to the language stream
  under the bias as given.
\<close>

definition stream_spec ::
  "var \<Rightarrow> var \<Rightarrow> int \<Rightarrow> int \<Rightarrow> real \<Rightarrow> real \<Rightarrow> string option \<Rightarrow> string \<Rightarrow> string \<Rightarrow>
   initializer option \<Rightarrow> int \<Rightarrow> string \<Rightarrow> string \<Rightarrow> string \<Rightarrow> string \<Rightarrow> var" where
  "stream_spec stream_input attention inner_hid model prepostprocess_dropout relu_dropout
       hidden_act preprocess_cmd postprocess_cmd param_initializer seed
       post_att_name pre_ffn_name ffn_name post_ffn_name =
     (let attn_output = processed (Some stream_input) attention postprocess_cmd
                          prepostprocess_dropout seed post_att_name;
          ffd_output = feed_forward_spec
                         (processed None attn_output preprocess_cmd prepostprocess_dropout seed
                            pre_ffn_name)
                         inner_hid model relu_dropout hidden_act param_initializer seed ffn_name
      in processed (Some attn_output) ffd_output postprocess_cmd prepostprocess_dropout seed
           post_ffn_name)"

definition co_layer_spec ::
  "var \<Rightarrow> var \<Rightarrow> var \<Rightarrow> int \<Rightarrow> int \<Rightarrow> int \<Rightarrow> int \<Rightarrow> int \<Rightarrow> int \<Rightarrow> int \<Rightarrow> real \<Rightarrow> real \<Rightarrow> real \<Rightarrow>
   string option \<Rightarrow> string \<Rightarrow> string \<Rightarrow> initializer option \<Rightarrow> int \<Rightarrow> string \<Rightarrow> var \<times> var" where
  "co_layer_spec enc_input enc_vl_input attn_vl_bias co_head co_key co_value d_model d_inner_hid
       v_model v_inner_hid prepostprocess_dropout attention_dropout relu_dropout hidden_act
       preprocess_cmd postprocess_cmd param_initializer seed name =
     (let language = processed None enc_input preprocess_cmd prepostprocess_dropout seed
                       (name @ ''_pre_att'');
          vision = processed None enc_vl_input preprocess_cmd prepostprocess_dropout seed
                     (name @ ''_vl_pre_att'');
          language_attention =
            attention_spec language vision vision (Some (Transpose attn_vl_bias [0, 1, 3, 2]))
              co_key co_value d_model co_head attention_dropout param_initializer seed
              (name @ ''_multi_head_att'');
          vision_attention =
            attention_spec vision language language (Some attn_vl_bias)
              co_key co_value v_model co_head attention_dropout param_initializer seed
              (name @ ''_vl_multi_head_att'')
      in (stream_spec enc_input language_attention d_inner_hid d_model prepostprocess_dropout
            relu_dropout hidden_act preprocess_cmd postprocess_cmd param_initializer seed
            (name @ ''_post_att'') (name @ ''_pre_ffn'') (name @ ''_ffn'') (name @ ''_post_ffn''),
          stream_spec enc_vl_input vision_attention v_inner_hid v_model prepostprocess_dropout
            relu_dropout hidden_act preprocess_cmd postprocess_cmd param_initializer seed
            (name @ ''_vl_post_att'') (name @ ''_pre_vl_ffn'') (name @ ''_vl_ffn'')
            (name @ ''_vl_post_ffn'')))"


section \<open>The layer schedule of the specification\<close>

text \<open>
  The schedule as the specification words it: for each zipped pair
  \<^verbatim>\<open>(v_layer_id, t_layer_id)\<close> the text encoder layers of the indices from \<^verbatim>\<open>t_start\<close> up to
  \<^verbatim>\<open>t_layer_id\<close> (exclusive), then the vision encoder layers from \<^verbatim>\<open>v_start\<close> up to
  \<^verbatim>\<open>v_layer_id\<close>, then one co-attention layer; after the last pair one more encoder layer
  per stream, at the last \<^verbatim>\<open>t_layer_id\<close> and the last \<^verbatim>\<open>v_layer_id\<close>.  There is no schedule
  when no pair exists.  Each stage feeds its output forward as the input of the next.
\<close>

datatype stage = Text_layer int | Vision_layer int | Co_layer int

fun block_stages :: "int \<Rightarrow> int \<Rightarrow> int \<Rightarrow> (int \<times> int) list \<Rightarrow> stage list" where
  "block_stages v_start t_start block [] = []"
| "block_stages v_start t_start block ((v_layer_id, t_layer_id) # rest) =
     map Text_layer (range_int t_start t_layer_id) @
     map Vision_layer (range_int v_start v_layer_id) @
     [Co_layer block] @
     block_stages v_layer_id t_layer_id (block + 1) rest"

definition schedule :: "int list \<Rightarrow> int list \<Rightarrow> stage list option" where
  "schedule v_biattention_id t_biattention_id =
     (case zip v_biattention_id t_biattention_id of
        [] \<Rightarrow> None
      | p # ps \<Rightarrow>
          Some (block_stages 0 0 0 (p # ps) @
                [Text_layer (snd (last (p # ps))), Vision_layer (fst (last (p # ps)))]))"

fun run_stage ::
  "(var \<Rightarrow> int \<Rightarrow> error + var) \<Rightarrow> (var \<Rightarrow> int \<Rightarrow> error + var) \<Rightarrow>
   (var \<Rightarrow> var \<Rightarrow> int \<Rightarrow> error + var \<times> var) \<Rightarrow> stage \<Rightarrow> var \<times> var \<Rightarrow> error + var \<times> var" where
  "run_stage text vision co (Text_layer idx) (enc, vl) =
     bnd (text enc idx) (\<lambda>enc'. Inr (enc', vl))"
| "run_stage text vision co (Vision_layer idx) (enc, vl) =
     bnd (vision vl idx) (\<lambda>vl'. Inr (enc, vl'))"
| "run_stage text vision co (Co_layer block) (enc, vl) = co enc vl block"

definition stream_layer ::
  "var option \<Rightarrow> int \<Rightarrow> int \<Rightarrow> int \<Rightarrow> int \<Rightarrow> int \<Rightarrow> real \<Rightarrow> real \<Rightarrow> real \<Rightarrow> string option \<Rightarrow>
   string \<Rightarrow> string \<Rightarrow> initializer option \<Rightarrow> int \<Rightarrow> string \<Rightarrow> var \<Rightarrow> int \<Rightarrow> error + var" where
  "stream_layer attn_bias n_head d_key d_value d_model d_inner_hid prepostprocess_dropout
       attention_dropout relu_dropout hidden_act preprocess_cmd postprocess_cmd
       param_initializer seed layer_name stream idx =
     bnd (encoder_layer stream attn_bias n_head d_key d_value d_model d_inner_hid
            prepostprocess_dropout attention_dropout relu_dropout hidden_act preprocess_cmd
            postprocess_cmd param_initializer seed (layer_name @ str idx) False) value_of"

definition co_block ::
  "var \<Rightarrow> int \<Rightarrow> int \<Rightarrow> int \<Rightarrow> int \<Rightarrow> int \<Rightarrow> int \<Rightarrow> int \<Rightarrow> int \<Rightarrow> real \<Rightarrow> real \<Rightarrow> real \<Rightarrow>
   string option \<Rightarrow> string \<Rightarrow> string \<Rightarrow> initializer option \<Rightarrow> int \<Rightarrow> string \<Rightarrow>
   var \<Rightarrow> var \<Rightarrow> int \<Rightarrow> error + var \<times> var" where
  "co_block attn_vl_bias co_head co_key co_value co_model d_model d_inner_hid v_model v_inner_hid
       prepostprocess_dropout attention_dropout relu_dropout hidden_act preprocess_cmd
       postprocess_cmd param_initializer seed name enc vl block =
     bnd (encoder_co_layer enc vl attn_vl_bias co_head co_key co_value co_model d_model
            d_inner_hid v_model v_inner_hid prepostprocess_dropout attention_dropout relu_dropout
            hidden_act preprocess_cmd postprocess_cmd param_initializer seed
            (name @ ''_colayer_'' @ str block) False) value_of"

definition encoder_by_schedule ::
  "var \<Rightarrow> var \<Rightarrow> var option \<Rightarrow> var option \<Rightarrow> var \<Rightarrow> int \<Rightarrow>
   int \<Rightarrow> int \<Rightarrow> int \<Rightarrow> int \<Rightarrow> int \<Rightarrow>
   int \<Rightarrow> int \<Rightarrow> int \<Rightarrow> int \<Rightarrow> int \<Rightarrow>
   int \<Rightarrow> int \<Rightarrow> int \<Rightarrow> int \<Rightarrow> int \<Rightarrow>
   real \<Rightarrow> real \<Rightarrow> real \<Rightarrow> string option \<Rightarrow> string \<Rightarrow> string \<Rightarrow> initializer option \<Rightarrow>
   int list \<Rightarrow> int list \<Rightarrow> int \<Rightarrow> string \<Rightarrow> bool \<Rightarrow> error + (var \<times> var) ret" where
  "encoder_by_schedule enc_input enc_vl_input attn_bias attn_image_bias attn_vl_bias n_layer
       n_head d_key d_value d_model d_inner_hid
       v_head v_key v_value v_model v_inner_hid
       co_head co_key co_value co_model co_inner_hid
       prepostprocess_dropout attention_dropout relu_dropout hidden_act preprocess_cmd
       postprocess_cmd param_initializer v_biattention_id t_biattention_id seed name debug =
     (case schedule v_biattention_id t_biattention_id of
        None \<Rightarrow> Inl UnboundLocalError
      | Some stages \<Rightarrow>
          bnd (for_each stages
                 (run_stage
                    (stream_layer attn_bias n_head d_key d_value d_model d_inner_hid
                       prepostprocess_dropout attention_dropout relu_dropout hidden_act
                       preprocess_cmd postprocess_cmd param_initializer seed (name @ ''_layer_''))
                    (stream_layer attn_image_bias v_head v_key v_value v_model v_inner_hid
                       prepostprocess_dropout attention_dropout relu_dropout hidden_act
                       preprocess_cmd postprocess_cmd param_initializer seed (name @ ''_vlayer_''))
                    (co_block attn_vl_bias co_head co_key co_value co_model d_model d_inner_hid
                       v_model v_inner_hid prepostprocess_dropout attention_dropout relu_dropout
                       hidden_act preprocess_cmd postprocess_cmd param_initializer seed name))
                 (enc_input, enc_vl_input))
            (\<lambda>(enc, vl).
               bnd (value_of (pre_process_layer enc preprocess_cmd prepostprocess_dropout seed
                      ''post_encoder'' False)) (\<lambda>enc_output.
               bnd (value_of (pre_process_layer vl preprocess_cmd prepostprocess_dropout seed
                      ''vl_post_encoder'' False)) (\<lambda>enc_vl_output.
                 Inr (if debug
                      then Debug_dict [(''enc_output'', enc_output),
                                       (''enc_vl_output'', enc_vl_output)]
                      else Value (enc_output, enc_vl_output))))))"

text \<open>The three kinds of stage, for counting the layers of a schedule.\<close>

fun is_text_layer :: "stage \<Rightarrow> bool" where
  "is_text_layer (Text_layer idx) = True"
| "is_text_layer s = False"

fun is_vision_layer :: "stage \<Rightarrow> bool" where
  "is_vision_layer (Vision_layer idx) = True"
| "is_vision_layer s = False"

fun is_co_layer :: "stage \<Rightarrow> bool" where
  "is_co_layer (Co_layer block) = True"
| "is_co_layer s = False"

text \<open>The ids \<^verbatim>\<open>(v_end, t_end)\<close> at which \<^verbatim>\<open>encoder\<close> applies its two encoder layers after the
  loop, read from the final loop state.\<close>

definition final_layer_ids :: "error + loop_state \<Rightarrow> (int \<times> int) option" where
  "final_layer_ids r =
     (case r of
        Inr (enc_input, enc_vl_input, enc_output, enc_vl_output, v_start, t_start, block,
             Some v_end, Some t_end) \<Rightarrow> Some (v_end, t_end)
      | _ \<Rightarrow> None)"

section \<open>Values of the layout operators and of the fully connected layer\<close>

text \<open>
  A tensor at run time: its extents and its elements in row-major order.  The value of a
  graph variable is given for the operators whose result the claims speak about: a fed
  input, \<^verbatim>\<open>reshape\<close>, \<^verbatim>\<open>transpose\<close> and the fully connected layer; the other operators are
  floating-point arithmetic of the framework and have no value here.  These are the
  framework's documented semantics, not functions of the repository.

  \<^verbatim>\<open>reshape\<close> keeps the elements; in its target \<open>0\<close> copies the extent of the input at the
  same position, \<open>-1\<close> stands for the one extent that the element count determines, and
  the element count must not change.  \<^verbatim>\<open>transpose\<close> with \<open>perm\<close> puts the extent \<open>perm ! k\<close> of
  the input at position \<open>k\<close>: the element at the multi-index \<open>idx\<close> of the result is the
  element of the input at the multi-index that has \<open>idx ! k\<close> at position \<open>perm ! k\<close>.  The
  fully connected layer with \<^verbatim>\<open>num_flatten_dims = k\<close> flattens the input to a matrix whose
  rows are indexed by the first \<open>k\<close> extents, multiplies it with the weight matrix, adds
  the bias to every row and applies the activation to every entry.
\<close>

datatype 'a tensor = Tensor (dims: "nat list") (elems: "'a list")

definition well_formed :: "'a tensor \<Rightarrow> bool" where
  "well_formed t = (length (elems t) = prod_list (dims t))"

definition copy_dims :: "nat list \<Rightarrow> int list \<Rightarrow> int list" where
  "copy_dims ds target =
     map (\<lambda>i. if target ! i = 0 then (if i < length ds then int (ds ! i) else - 2)
              else target ! i) [0..<length target]"

definition reshape_dims :: "nat list \<Rightarrow> int list \<Rightarrow> nat list option" where
  "reshape_dims ds target =
     (let entries = copy_dims ds target;
          known = prod_list (map nat (filter (\<lambda>d. d \<noteq> - 1) entries))
      in if list_ex (\<lambda>d. d < - 1) entries then None
         else if length (filter (\<lambda>d. d = - 1) entries) = 0 then Some (map nat entries)
         else if length (filter (\<lambda>d. d = - 1) entries) = 1 \<and> 0 < known \<and>
                 prod_list ds mod known = 0
         then Some (map (\<lambda>d. if d = - 1 then prod_list ds div known else nat d) entries)
         else None)"

definition reshape_value :: "'a tensor \<Rightarrow> int list \<Rightarrow> 'a tensor option" where
  "reshape_value t target =
     (case reshape_dims (dims t) target of
        None \<Rightarrow> None
      | Some ds \<Rightarrow> if prod_list ds = length (elems t) then Some (Tensor ds (elems t)) else None)"

fun unravel :: "nat list \<Rightarrow> nat \<Rightarrow> nat list" where
  "unravel [] n = []"
| "unravel (d # ds) n = (n div prod_list ds) # unravel ds (n mod prod_list ds)"

fun ravel :: "nat list \<Rightarrow> nat list \<Rightarrow> nat" where
  "ravel (d # ds) (i # idx) = i * prod_list ds + ravel ds idx"
| "ravel ds idx = 0"

definition source_index :: "nat list \<Rightarrow> nat list \<Rightarrow> nat list" where
  "source_index perm idx =
     map (\<lambda>j. idx ! length (takeWhile (\<lambda>p. p \<noteq> j) perm)) [0..<length perm]"

definition transpose_value :: "'a tensor \<Rightarrow> nat list \<Rightarrow> 'a tensor option" where
  "transpose_value t perm =
     (if sort perm = [0..<length (dims t)]
      then let ds = map (\<lambda>p. dims t ! p) perm
           in Some (Tensor ds
                (map (\<lambda>n. elems t ! ravel (dims t) (source_index perm (unravel ds n)))
                   [0..<prod_list ds]))
      else None)"

datatype 'a env =
  Env (env_feed: "string \<Rightarrow> 'a tensor option") (env_weight: "string \<Rightarrow> 'a list list")
      (env_bias: "string \<Rightarrow> 'a list") (env_act: "string \<Rightarrow> 'a \<Rightarrow> 'a")

definition affine :: "'a::semiring_0 list list \<Rightarrow> 'a list \<Rightarrow> 'a list \<Rightarrow> 'a list" where
  "affine w b row =
     map (\<lambda>j. sum_list (map (\<lambda>i. row ! i * w ! i ! j) [0..<length row]) + b ! j)
       [0..<length b]"

definition activate :: "'a env \<Rightarrow> string option \<Rightarrow> 'a \<Rightarrow> 'a" where
  "activate env act = (case act of None \<Rightarrow> (\<lambda>x. x) | Some a \<Rightarrow> env_act env a)"

definition row_at :: "nat \<Rightarrow> 'a list \<Rightarrow> nat \<Rightarrow> 'a list" where
  "row_at width xs r = take width (drop (r * width) xs)"

definition fc_value ::
  "'a::semiring_0 env \<Rightarrow> 'a tensor \<Rightarrow> int \<Rightarrow> nat \<Rightarrow> string option \<Rightarrow> string \<Rightarrow> string \<Rightarrow>
   'a tensor option" where
  "fc_value env t size' num_flatten_dims act w_name b_name =
     (let rows = prod_list (take num_flatten_dims (dims t));
          width = prod_list (drop num_flatten_dims (dims t));
          w = env_weight env w_name;
          b = env_bias env b_name
      in if 0 < num_flatten_dims \<and> num_flatten_dims < length (dims t) \<and> 0 < size' \<and>
            length w = width \<and> list_all (\<lambda>r. length r = nat size') w \<and> length b = nat size'
         then Some (Tensor (take num_flatten_dims (dims t) @ [nat size'])
                (concat (map (\<lambda>r. map (activate env act) (affine w b (row_at width (elems t) r)))
                           [0..<rows])))
         else None)"

fun tensor_value :: "'a::semiring_0 env \<Rightarrow> var \<Rightarrow> 'a tensor option" where
  "tensor_value env (Data name shp) =
     (case env_feed env name of
        None \<Rightarrow> None
      | Some t \<Rightarrow>
          if well_formed t \<and> list_all2 (\<lambda>s d. s = - 1 \<or> s = int d) shp (dims t) then Some t
          else None)"
| "tensor_value env (Reshape x target) =
     (case tensor_value env x of None \<Rightarrow> None | Some t \<Rightarrow> reshape_value t target)"
| "tensor_value env (Transpose x perm) =
     (case tensor_value env x of None \<Rightarrow> None | Some t \<Rightarrow> transpose_value t perm)"
| "tensor_value env (Fc x size' num_flatten_dims act (ParamAttr w_name init) b_name) =
     (case tensor_value env x of
        None \<Rightarrow> None
      | Some t \<Rightarrow> fc_value env t size' num_flatten_dims act w_name b_name)"
| "tensor_value env x = None"

text \<open>
  The feature vector of a 3-D tensor at batch element \<open>i\<close> and sequence position \<open>j\<close>, and the
  function that the feed-forward network is to apply to every such vector: the affine map of
  the first layer, the activation \<^verbatim>\<open>hidden_act\<close> on every entry, and the affine map of the second
  layer, with the parameters that the environment holds under the names of the two layers.
\<close>

definition position_row :: "'a tensor \<Rightarrow> nat \<Rightarrow> nat \<Rightarrow> 'a list" where
  "position_row t i j = row_at (dims t ! 2) (elems t) (i * (dims t ! 1) + j)"

definition position_function ::
  "'a::semiring_0 env \<Rightarrow> string option \<Rightarrow> string \<Rightarrow> 'a list \<Rightarrow> 'a list" where
  "position_function env hidden_act name row =
     affine (env_weight env (name @ ''_fc_1.w_0'')) (env_bias env (name @ ''_fc_1.b_0''))
       (map (activate env hidden_act)
          (affine (env_weight env (name @ ''_fc_0.w_0'')) (env_bias env (name @ ''_fc_0.b_0''))
             row))"

section \<open>Verified properties\<close>

subsection \<open>Auxiliary facts\<close>

lemma bnd_Inl [simp]: "bnd (Inl e) f = Inl e"
  by (simp add: bnd_def)

lemma bnd_Inr [simp]: "bnd (Inr x) f = f x"
  by (simp add: bnd_def)

lemma length_reshape_shape [simp]: "length (reshape_shape s t) = length t"
  by (simp add: reshape_shape_def)

lemma length_broadcast_shape [simp]:
  "length (broadcast_shape s t) = max (length s) (length t)"
  by (simp add: broadcast_shape_def Let_def)

lemma bias_rank_simps [simp]:
  "bias_rank None = 0" "bias_rank (Some b) = length (shape b)"
  by (simp_all add: bias_rank_def)

lemma split_heads_rank: "split_heads x n = Inr y \<Longrightarrow> length (shape y) = 4"
  by (auto simp: split_heads_def Let_def split: if_splits)

lemma split_heads_error: "split_heads x n = Inl e \<Longrightarrow> e = IndexError \<or> e = ZeroDivisionError"
  by (auto simp: split_heads_def Let_def split: if_splits)

lemma attention_rank:
  "scaled_dot_product_attention q k v b d r s = Inr ctx \<Longrightarrow> length (shape q) = 4 \<Longrightarrow>
   length (shape ctx) = max 4 (bias_rank b)"
  by (auto simp: scaled_dot_product_attention_def pow_neg_half_def Let_def
      split: if_splits option.splits)

lemma attention_error:
  "scaled_dot_product_attention q k v b d r s = Inl e \<Longrightarrow> e = ZeroDivisionError \<or> e = TypeError"
  by (auto simp: scaled_dot_product_attention_def pow_neg_half_def Let_def
      split: if_splits option.splits)

lemma combine_heads_rank4: "length (shape x) = 4 \<Longrightarrow> \<exists>y. combine_heads x = Inr y"
  by (simp add: combine_heads_def Let_def)

lemma bnd_eq_Inl: "bnd m f = Inl e \<longleftrightarrow> m = Inl e \<or> (\<exists>x. m = Inr x \<and> f x = Inl e)"
  by (cases m) auto

lemma bnd_eq_Inr: "bnd m f = Inr y \<longleftrightarrow> (\<exists>x. m = Inr x \<and> f x = Inr y)"
  by (cases m) auto

lemma combine_heads_4d:
  "length (shape x) = 4 \<Longrightarrow>
   combine_heads x =
     Inr (Reshape (Transpose x [0, 2, 1, 3]) [0, 0, dim_at (shape x) 1 * dim_at (shape x) 3])"
  by (simp add: combine_heads_def Let_def)

lemma attention_core_no_value_error:
  assumes "bias_rank b \<le> 4"
  shows "bnd (split_heads q n) (\<lambda>qh. bnd (split_heads k n) (\<lambda>kh. bnd (split_heads v n) (\<lambda>vh.
     bnd (scaled_dot_product_attention qh kh vh b d r s) (\<lambda>ctx.
     bnd (combine_heads ctx) (\<lambda>out. Inr (F out)))))) \<noteq> Inl ValueError"
proof
  assume a: "bnd (split_heads q n) (\<lambda>qh. bnd (split_heads k n) (\<lambda>kh. bnd (split_heads v n) (\<lambda>vh.
     bnd (scaled_dot_product_attention qh kh vh b d r s) (\<lambda>ctx.
     bnd (combine_heads ctx) (\<lambda>out. Inr (F out)))))) = Inl ValueError"
  from a obtain qh where qh: "split_heads q n = Inr qh"
    by (cases "split_heads q n") (auto dest: split_heads_error)
  from a qh obtain kh where kh: "split_heads k n = Inr kh"
    by (cases "split_heads k n") (auto dest: split_heads_error)
  from a qh kh obtain vh where vh: "split_heads v n = Inr vh"
    by (cases "split_heads v n") (auto dest: split_heads_error)
  from a qh kh vh obtain ctx where ctx: "scaled_dot_product_attention qh kh vh b d r s = Inr ctx"
    by (cases "scaled_dot_product_attention qh kh vh b d r s") (auto dest: attention_error)
  have "length (shape ctx) = 4"
    using attention_rank [OF ctx] split_heads_rank [OF qh] assms by simp
  with a qh kh vh ctx show False
    by (simp add: combine_heads_4d)
qed

lemma mha_no_value_error:
  assumes "inputs_3d queries keys values" and "bias_rank attn_bias \<le> 4"
  shows "multi_head_attention queries keys values attn_bias d_key d_value d_model n_head
           dropout_rate cache param_initializer seed name debug \<noteq> Inl ValueError"
  using assms(1)
  by (simp add: multi_head_attention_def inputs_3d_def Let_def
      attention_core_no_value_error [OF assms(2)] split: prod.splits)

lemma mha_value_error:
  assumes "\<not> inputs_3d queries keys values"
  shows "multi_head_attention queries keys values attn_bias d_key d_value d_model n_head
           dropout_rate cache param_initializer seed name debug = Inl ValueError"
  using assms
  by (auto simp add: multi_head_attention_def inputs_3d_def Let_def)


lemma pow_neg_half_pos: "0 < d \<Longrightarrow> pow_neg_half d = Inr (1 / sqrt (real_of_int d))"
  by (simp add: pow_neg_half_def powr_minus powr_half_sqrt inverse_eq_divide)

lemma split_heads_fc:
  "n \<noteq> 0 \<Longrightarrow> split_heads (Fc x (d * n) 2 a w b) n = Inr (heads (Fc x (d * n) 2 a w b) n d)"
  by (simp add: split_heads_def heads_def)

lemma shape_heads:
  "length (shape x) = 3 \<Longrightarrow> n \<noteq> 0 \<Longrightarrow> d \<noteq> 0 \<Longrightarrow>
   shape (heads x n d) = [shape x ! 0, n, shape x ! 1, d]"
  by (simp add: heads_def reshape_shape_def dim_at_def upt_rec)

lemma broadcast_shape_heads:
  assumes "length s = 4" and "length t \<le> 4"
  shows "broadcast_shape s t ! 1 =
           broadcast_dim (s ! 1) (if 3 \<le> length t then t ! (length t - 3) else 1)"
proof -
  have "broadcast_shape s t = map2 broadcast_dim s (replicate (4 - length t) 1 @ t)"
    using assms by (simp add: broadcast_shape_def Let_def max_def)
  moreover have "(replicate (4 - length t) 1 @ t) ! 1 =
      (if 3 \<le> length t then t ! (length t - 3) else (1 :: int))"
    using assms(2) by (auto simp: nth_append)
  ultimately show ?thesis
    using assms by simp
qed

lemma biased_logits_shape:
  assumes "length (shape x) = 4" and "shape x ! 1 = n" and "bias_fits (Some b) n"
  shows "length (shape (Elementwise_add x b)) = 4" and "shape (Elementwise_add x b) ! 1 = n"
  using assms broadcast_shape_heads [of "shape x" "shape b"]
  by (simp_all add: bias_fits_def max_def)

lemma logits_shape:
  assumes "length (shape x) = 3" and "n \<noteq> 0" and "d \<noteq> 0"
  shows "length (shape (Matmul (Scale (heads x n d) c) k True)) = 4"
    and "shape (Matmul (Scale (heads x n d) c) k True) ! 1 = n"
  using assms by (simp_all add: shape_heads)

lemma combine_context:
  assumes "length (shape w) = 4" and "shape w ! 1 = n"
    and "length (shape x) = 3" and "n \<noteq> 0" and "d \<noteq> 0"
  shows "combine_heads (Matmul w (heads x n d) False) =
           Inr (Reshape (Transpose (Matmul w (heads x n d) False) [0, 2, 1, 3]) [0, 0, n * d])"
proof -
  obtain a b c e where w: "shape w = [a, b, c, e]"
    using assms(1) by (auto simp: length_Suc_conv numeral_eq_Suc)
  with assms show ?thesis
    by (simp add: combine_heads_4d shape_heads dim_at_def)
qed

lemma mha_result:
  assumes "inputs_3d queries keys values" "n_head \<noteq> 0" "0 < d_key" "d_value \<noteq> 0"
    "bias_fits attn_bias n_head"
  shows "multi_head_attention queries keys values attn_bias d_key d_value d_model n_head
           dropout_rate None param_initializer seed name debug =
         Inr (let proj_out = attention_spec queries (default_to queries keys)
                  (default_to (default_to queries keys) values) attn_bias d_key d_value d_model
                  n_head dropout_rate param_initializer seed name
              in if debug then Debug_dict [(''proj_out'', proj_out)] else Value proj_out, None)"
proof -
  let ?ks = "default_to queries keys"
  let ?vs = "default_to ?ks values"
  let ?q = "Fc queries (d_key * n_head) 2 None
              (ParamAttr (name @ ''_query_fc.w_0'') param_initializer) (name @ ''_query_fc.b_0'')"
  let ?k = "Fc ?ks (d_key * n_head) 2 None
              (ParamAttr (name @ ''_key_fc.w_0'') param_initializer) (name @ ''_key_fc.b_0'')"
  let ?v = "Fc ?vs (d_value * n_head) 2 None
              (ParamAttr (name @ ''_value_fc.w_0'') param_initializer) (name @ ''_value_fc.b_0'')"
  let ?logits = "Matmul (Scale (heads ?q n_head d_key) (1 / sqrt (real_of_int d_key)))
                   (heads ?k n_head d_key) True"
  let ?biased = "case attn_bias of None \<Rightarrow> ?logits | Some b \<Rightarrow> Elementwise_add ?logits b"
  let ?weights = "if dropout_rate \<noteq> 0 then Dropout (Softmax ?biased) dropout_rate seed
                  else Softmax ?biased"
  have ranks: "length (shape queries) = 3" "length (shape ?ks) = 3" "length (shape ?vs) = 3"
    using assms(1) by (simp_all add: inputs_3d_def default_to_def Let_def)
  have q3: "length (shape ?q) = 3" and v3: "length (shape ?v) = 3"
    using ranks by simp_all
  have d: "d_key \<noteq> 0"
    using assms(3) by simp
  have "length (shape ?biased) = 4 \<and> shape ?biased ! 1 = n_head"
  proof (cases attn_bias)
    case None
    then show ?thesis
      using logits_shape [OF q3 assms(2) d] by simp
  next
    case (Some b)
    then show ?thesis
      using biased_logits_shape [OF logits_shape [OF q3 assms(2) d], of b] assms(5) by simp
  qed
  then have "length (shape ?weights) = 4" and "shape ?weights ! 1 = n_head"
    by simp_all
  from combine_context [OF this v3 assms(2,4)]
  have combine: "combine_heads (Matmul ?weights (heads ?v n_head d_value) False) =
      Inr (Reshape (Transpose (Matmul ?weights (heads ?v n_head d_value) False) [0, 2, 1, 3])
             [0, 0, n_head * d_value])" .
  have attention: "scaled_dot_product_attention (heads ?q n_head d_key) (heads ?k n_head d_key)
      (heads ?v n_head d_value) attn_bias d_key dropout_rate seed =
      Inr (Matmul ?weights (heads ?v n_head d_value) False)"
    using assms(3)
    by (simp add: scaled_dot_product_attention_def pow_neg_half_pos Let_def)
  have "multi_head_attention queries keys values attn_bias d_key d_value d_model n_head
           dropout_rate None param_initializer seed name debug =
        bnd (scaled_dot_product_attention (heads ?q n_head d_key) (heads ?k n_head d_key)
               (heads ?v n_head d_value) attn_bias d_key dropout_rate seed) (\<lambda>ctx_multiheads.
        bnd (combine_heads ctx_multiheads) (\<lambda>out.
          let proj_out = Fc out d_model 2 None
                           (ParamAttr (name @ ''_output_fc.w_0'') param_initializer)
                           (name @ ''_output_fc.b_0'')
          in Inr (if debug then Debug_dict [(''proj_out'', proj_out)] else Value proj_out,
                  None)))"
    using assms(1,2)
    by (simp add: multi_head_attention_def inputs_3d_def Let_def compute_qkv_def split_heads_fc
        default_to_def)
  also have "\<dots> = Inr (let proj_out = attention_spec queries ?ks ?vs attn_bias d_key d_value
                  d_model n_head dropout_rate param_initializer seed name
              in if debug then Debug_dict [(''proj_out'', proj_out)] else Value proj_out, None)"
    unfolding attention bnd_Inr combine
    by (simp add: attention_spec_def Let_def)
  finally show ?thesis .
qed


lemma split_heads_returns:
  "shape x \<noteq> [] \<Longrightarrow> n \<noteq> 0 \<Longrightarrow> \<exists>y. split_heads x n = Inr y"
  by (simp add: split_heads_def Let_def)

lemma attention_returns:
  "0 < d \<Longrightarrow> \<exists>ctx. scaled_dot_product_attention q k v b d r s = Inr ctx"
  by (simp add: scaled_dot_product_attention_def pow_neg_half_pos Let_def)

lemma attention_core_returns:
  assumes "shape q \<noteq> []" "shape k \<noteq> []" "shape v \<noteq> []" "n \<noteq> 0" "0 < d"
    "bias_rank b \<le> 4"
  shows "\<exists>out. bnd (split_heads q n) (\<lambda>qh. bnd (split_heads k n) (\<lambda>kh. bnd (split_heads v n) (\<lambda>vh.
     bnd (scaled_dot_product_attention qh kh vh b d r s) (\<lambda>ctx.
     bnd (combine_heads ctx) (\<lambda>out. Inr (F out)))))) = Inr (F out)"
proof -
  obtain qh where qh: "split_heads q n = Inr qh"
    using split_heads_returns assms by blast
  obtain kh where kh: "split_heads k n = Inr kh"
    using split_heads_returns assms by blast
  obtain vh where vh: "split_heads v n = Inr vh"
    using split_heads_returns assms by blast
  obtain ctx where ctx: "scaled_dot_product_attention qh kh vh b d r s = Inr ctx"
    using attention_returns assms by blast
  have "length (shape ctx) = 4"
    using attention_rank [OF ctx] split_heads_rank [OF qh] assms by simp
  then show ?thesis
    by (auto simp: qh kh vh ctx combine_heads_4d)
qed

lemma attention_core_returns':
  assumes "shape q \<noteq> []" "shape k \<noteq> []" "shape v \<noteq> []" "n \<noteq> 0" "0 < d"
    "bias_rank b \<le> 4"
  shows "\<exists>res. bnd (split_heads q n) (\<lambda>qh. bnd (split_heads k n) (\<lambda>kh. bnd (split_heads v n) (\<lambda>vh.
     bnd (scaled_dot_product_attention qh kh vh b d r s) (\<lambda>ctx.
     bnd (combine_heads ctx) (\<lambda>out. Inr (F out)))))) = Inr res"
  using attention_core_returns [OF assms, of r s F] by blast

lemma reshape_shape_eq_Nil [simp]: "reshape_shape s t = [] \<longleftrightarrow> t = []"
  by (simp add: reshape_shape_def)

lemma mha_returns:
  assumes "inputs_3d queries keys values" "n_head \<noteq> 0" "0 < d_key"
    "bias_rank attn_bias \<le> 4"
  shows "\<exists>res. multi_head_attention queries keys values attn_bias d_key d_value d_model n_head
           dropout_rate cache param_initializer seed name debug = Inr res"
proof (cases cache)
  case None
  with assms(1) show ?thesis
    by (simp add: multi_head_attention_def inputs_3d_def Let_def compute_qkv_def
        attention_core_returns' assms(2,3,4) del: split_paired_Ex)
next
  case (Some c)
  with assms(1) show ?thesis
    by (simp add: multi_head_attention_def inputs_3d_def Let_def compute_qkv_def
        attention_core_returns' assms(2,3,4) del: split_paired_Ex)
qed

lemma process_loop_no_debug:
  "process_loop prev_out dropout_rate seed name False cmds (out, d) =
     (processed prev_out out cmds dropout_rate seed name, d)"
  by (induction cmds arbitrary: out) (simp_all add: processed_def)

lemma pre_post_process_layer_value:
  "pre_post_process_layer prev_out out cmds dropout_rate seed name False =
     Value (processed prev_out out cmds dropout_rate seed name)"
  by (simp add: pre_post_process_layer_def process_loop_no_debug)

lemma processed_append:
  "processed prev_out out (cmds @ cmds') dropout_rate seed name =
     processed prev_out (processed prev_out out cmds dropout_rate seed name) cmds'
       dropout_rate seed name"
  by (simp add: processed_def)

lemma processed_no_residual:
  "processed None out cmds dropout_rate seed name =
     processed None out (filter (\<lambda>c. c \<noteq> CHR ''a'') cmds) dropout_rate seed name"
  by (induction cmds arbitrary: out) (simp_all add: processed_def process_step_def)

lemma shape_process_step [simp]:
  "shape (process_step None dropout_rate seed name cmd out) = shape out"
  by (simp add: process_step_def)

lemma shape_processed [simp]:
  "shape (processed None out cmds dropout_rate seed name) = shape out"
  by (induction cmds arbitrary: out) (simp_all add: processed_def)

lemma rank_process_step:
  "length (shape prev) \<le> length (shape out) \<Longrightarrow>
   length (shape (process_step (Some prev) dropout_rate seed name cmd out)) = length (shape out)"
  by (simp add: process_step_def)

lemma rank_processed:
  "length (shape prev) \<le> length (shape out) \<Longrightarrow>
   length (shape (processed (Some prev) out cmds dropout_rate seed name)) = length (shape out)"
proof (induction cmds arbitrary: out)
  case Nil
  then show ?case by (simp add: processed_def)
next
  case (Cons cmd cmds)
  have "length (shape prev) \<le>
      length (shape (process_step (Some prev) dropout_rate seed name cmd out))"
    using Cons.prems by (simp add: rank_process_step)
  from Cons.IH [OF this] show ?case
    using Cons.prems by (simp add: processed_def rank_process_step)
qed

lemma positionwise_feed_forward_value:
  "positionwise_feed_forward x d_inner_hid d_hid dropout_rate hidden_act param_initializer seed
       name False =
     Value (feed_forward_spec x d_inner_hid d_hid dropout_rate hidden_act param_initializer seed name)"
  by (simp add: positionwise_feed_forward_def feed_forward_spec_def Let_def)


lemma mha_result_plain:
  assumes "inputs_3d queries keys values" "n_head \<noteq> 0" "0 < d_key" "d_value \<noteq> 0"
    "bias_fits attn_bias n_head"
  shows "result_of (multi_head_attention queries keys values attn_bias d_key d_value d_model
           n_head dropout_rate None param_initializer seed name False) =
         Inr (attention_spec queries (default_to queries keys)
                (default_to (default_to queries keys) values) attn_bias d_key d_value d_model
                n_head dropout_rate param_initializer seed name)"
  by (simp add: mha_result [OF assms] result_of_def)

lemma pre_process_layer_value:
  "pre_process_layer out cmds dropout_rate seed name False =
     Value (processed None out cmds dropout_rate seed name)"
  by (simp add: pre_process_layer_def pre_post_process_layer_value)

lemma post_process_layer_value:
  "post_process_layer prev_out out cmds dropout_rate seed name False =
     Value (processed prev_out out cmds dropout_rate seed name)"
  by (simp add: post_process_layer_def pre_post_process_layer_value)

lemma bias_fits_transpose:
  "length (shape b) = 4 \<Longrightarrow>
   bias_fits (Some (Transpose b [0, 1, 3, 2])) n = bias_fits (Some b) n"
  by (simp add: bias_fits_def dim_at_def)

lemma encoder_co_layer_result:
  assumes "length (shape enc_input) = 3" "length (shape enc_vl_input) = 3"
    "co_head \<noteq> 0" "0 < co_key" "co_value \<noteq> 0"
    "length (shape attn_vl_bias) = 4" "bias_fits (Some attn_vl_bias) co_head"
  shows "encoder_co_layer enc_input enc_vl_input attn_vl_bias co_head co_key co_value co_model
           d_model d_inner_hid v_model v_inner_hid prepostprocess_dropout attention_dropout
           relu_dropout hidden_act preprocess_cmd postprocess_cmd param_initializer seed name
           debug =
         Inr (let r = co_layer_spec enc_input enc_vl_input attn_vl_bias co_head co_key co_value
                        d_model d_inner_hid v_model v_inner_hid prepostprocess_dropout
                        attention_dropout relu_dropout hidden_act preprocess_cmd postprocess_cmd
                        param_initializer seed name
              in if debug then Debug_dict [(''enc_output'', fst r), (''enc_vl_output'', snd r)]
                 else Value r)"
proof -
  have "bias_fits (Some (Transpose attn_vl_bias [0, 1, 3, 2])) co_head"
    using assms(6,7) by (simp only: bias_fits_transpose)
  with assms show ?thesis
    by (simp add: encoder_co_layer_def pre_process_layer_value post_process_layer_value
        positionwise_feed_forward_value mha_result_plain inputs_3d_def default_to_def
        co_layer_spec_def stream_spec_def Let_def)
qed

lemma bnd_assoc: "bnd (bnd m f) g = bnd m (\<lambda>x. bnd (f x) g)"
  by (cases m) simp_all

lemma bnd_cong: "m = m' \<Longrightarrow> (\<And>x. m' = Inr x \<Longrightarrow> f x = g x) \<Longrightarrow> bnd m f = bnd m' g"
  by (cases m') simp_all

lemma for_each_append:
  "for_each (xs @ ys) body s = bnd (for_each xs body s) (for_each ys body)"
proof (induction xs arbitrary: s)
  case Nil
  then show ?case by simp
next
  case (Cons a xs)
  show ?case
    by (simp add: bnd_assoc Cons.IH cong: bnd_cong)
qed

lemma text_stages:
  "for_each (map Text_layer idxs) (run_stage T V C) (e, v) =
     bnd (for_each idxs (\<lambda>idx (e, eo). bnd (T e idx) (\<lambda>out. Inr (out, Some out))) (e, eo))
       (\<lambda>(e', eo'). Inr (e', v))"
  by (induction idxs arbitrary: e eo) (simp_all add: bnd_assoc cong: bnd_cong)

lemma vision_stages:
  "for_each (map Vision_layer idxs) (run_stage T V C) (e, v) =
     bnd (for_each idxs (\<lambda>idx (v, vo). bnd (V v idx) (\<lambda>out. Inr (out, Some out))) (v, vo))
       (\<lambda>(v', vo'). Inr (e, v'))"
  by (induction idxs arbitrary: v vo) (simp_all add: bnd_assoc cong: bnd_cong)

lemma loop_stages:
  fixes T V :: "var \<Rightarrow> int \<Rightarrow> error + var" and C :: "var \<Rightarrow> var \<Rightarrow> int \<Rightarrow> error + var \<times> var"
  defines "B \<equiv>
     (\<lambda>(v_layer_id, t_layer_id) (e, v, eo, vo, vs, ts, blk, ve, te).
        let ve = v_layer_id; te = t_layer_id
        in bnd (for_each (range_int ts te)
                  (\<lambda>idx (e, eo). bnd (T e idx) (\<lambda>out. Inr (out, Some out))) (e, eo))
             (\<lambda>(e, eo).
        bnd (for_each (range_int vs ve)
               (\<lambda>idx (v, vo). bnd (V v idx) (\<lambda>out. Inr (out, Some out))) (v, vo))
             (\<lambda>(v, vo).
        bnd (C e v blk)
             (\<lambda>(eo, vo). Inr (eo, vo, Some eo, Some vo, ve, te, blk + 1, Some ve, Some te)))))"
  shows "for_each zs B (e, v, eo, vo, vs, ts, blk, ve, te) =
   bnd (for_each (block_stages vs ts blk zs) (run_stage T V C) (e, v))
     (\<lambda>(e', v').
        Inr (if zs = [] then (e, v, eo, vo, vs, ts, blk, ve, te)
             else (e', v', Some e', Some v', fst (last zs), snd (last zs),
                   blk + int (length zs), Some (fst (last zs)), Some (snd (last zs)))))"
proof (induction zs arbitrary: e v eo vo vs ts blk ve te)
  case Nil
  then show ?case by simp
next
  case (Cons z zs)
  obtain vid tid where z: "z = (vid, tid)" by (cases z)
  let ?Tb = "\<lambda>idx (e, eo). bnd (T e idx) (\<lambda>out. Inr (out, Some out))"
  let ?Vb = "\<lambda>idx (v, vo). bnd (V v idx) (\<lambda>out. Inr (out, Some out))"
  have body: "B (vid, tid) (e, v, eo, vo, vs, ts, blk, ve, te) =
     bnd (for_each (range_int ts tid) ?Tb (e, eo)) (\<lambda>(e, eo).
     bnd (for_each (range_int vs vid) ?Vb (v, vo)) (\<lambda>(v, vo).
     bnd (C e v blk) (\<lambda>(eo, vo).
       Inr (eo, vo, Some eo, Some vo, vid, tid, blk + 1, Some vid, Some tid))))"
    by (simp add: B_def Let_def)
  show ?case
  proof (cases "for_each (range_int ts tid) ?Tb (e, eo)")
    case (Inl err)
    then show ?thesis
      unfolding z
      by (simp add: body for_each_append bnd_assoc text_stages [where eo = eo])
  next
    case tx: (Inr p1)
    obtain e1 eo1 where p1: "p1 = (e1, eo1)" by (cases p1)
    show ?thesis
    proof (cases "for_each (range_int vs vid) ?Vb (v, vo)")
      case (Inl err)
      then show ?thesis
        unfolding z using tx p1
        by (simp add: body for_each_append bnd_assoc text_stages [where eo = eo]
            vision_stages [where vo = vo])
    next
      case vi: (Inr p2)
      obtain v1 vo1 where p2: "p2 = (v1, vo1)" by (cases p2)
      show ?thesis
      proof (cases "C e1 v1 blk")
        case (Inl err)
        then show ?thesis
          unfolding z using tx p1 vi p2
          by (simp add: body for_each_append bnd_assoc text_stages [where eo = eo]
              vision_stages [where vo = vo])
      next
        case cl: (Inr p3)
        obtain e2 v2 where p3: "p3 = (e2, v2)" by (cases p3)
        show ?thesis
          unfolding z using tx p1 vi p2 cl p3
          by (simp add: body for_each_append bnd_assoc text_stages [where eo = eo]
              vision_stages [where vo = vo] Cons.IH add.assoc)
      qed
    qed
  qed
qed


lemma encoder_loop_stages:
  "encoder_loop enc_input enc_vl_input attn_bias attn_image_bias attn_vl_bias
       n_head d_key d_value d_model d_inner_hid
       v_head v_key v_value v_model v_inner_hid
       co_head co_key co_value co_model
       prepostprocess_dropout attention_dropout relu_dropout hidden_act preprocess_cmd
       postprocess_cmd param_initializer v_biattention_id t_biattention_id seed name =
   bnd (for_each (block_stages 0 0 0 (zip v_biattention_id t_biattention_id))
          (run_stage
             (stream_layer attn_bias n_head d_key d_value d_model d_inner_hid
                prepostprocess_dropout attention_dropout relu_dropout hidden_act
                preprocess_cmd postprocess_cmd param_initializer seed (name @ ''_layer_''))
             (stream_layer attn_image_bias v_head v_key v_value v_model v_inner_hid
                prepostprocess_dropout attention_dropout relu_dropout hidden_act
                preprocess_cmd postprocess_cmd param_initializer seed (name @ ''_vlayer_''))
             (co_block attn_vl_bias co_head co_key co_value co_model d_model d_inner_hid
                v_model v_inner_hid prepostprocess_dropout attention_dropout relu_dropout
                hidden_act preprocess_cmd postprocess_cmd param_initializer seed name))
          (enc_input, enc_vl_input))
     (\<lambda>(e', v').
        Inr (if zip v_biattention_id t_biattention_id = []
             then (enc_input, enc_vl_input, None, None, 0, 0, 0, None, None)
             else (e', v', Some e', Some v',
                   fst (last (zip v_biattention_id t_biattention_id)),
                   snd (last (zip v_biattention_id t_biattention_id)),
                   0 + int (length (zip v_biattention_id t_biattention_id)),
                   Some (fst (last (zip v_biattention_id t_biattention_id))),
                   Some (snd (last (zip v_biattention_id t_biattention_id))))))"
  unfolding encoder_loop_def stream_layer_def [abs_def] co_block_def [abs_def]
  by (simp only: append_assoc) (rule loop_stages)


lemma encoder_schedule:
  "encoder enc_input enc_vl_input attn_bias attn_image_bias attn_vl_bias n_layer
       n_head d_key d_value d_model d_inner_hid
       v_head v_key v_value v_model v_inner_hid
       co_head co_key co_value co_model co_inner_hid
       prepostprocess_dropout attention_dropout relu_dropout hidden_act preprocess_cmd
       postprocess_cmd param_initializer v_biattention_id t_biattention_id seed name debug =
   encoder_by_schedule enc_input enc_vl_input attn_bias attn_image_bias attn_vl_bias n_layer
       n_head d_key d_value d_model d_inner_hid
       v_head v_key v_value v_model v_inner_hid
       co_head co_key co_value co_model co_inner_hid
       prepostprocess_dropout attention_dropout relu_dropout hidden_act preprocess_cmd
       postprocess_cmd param_initializer v_biattention_id t_biattention_id seed name debug"
proof -
  define zs where "zs = zip v_biattention_id t_biattention_id"
  note loop = encoder_loop_stages [of enc_input enc_vl_input attn_bias attn_image_bias
      attn_vl_bias n_head d_key d_value d_model d_inner_hid v_head v_key v_value v_model
      v_inner_hid co_head co_key co_value co_model prepostprocess_dropout attention_dropout
      relu_dropout hidden_act preprocess_cmd postprocess_cmd param_initializer
      v_biattention_id t_biattention_id seed name, folded zs_def]
  show ?thesis
  proof (cases "zs = []")
    case True
    then have "schedule v_biattention_id t_biattention_id = None"
      by (simp add: schedule_def zs_def [symmetric])
    with True show ?thesis
      by (simp add: encoder_def loop encoder_by_schedule_def)
  next
    case False
    then have sched: "schedule v_biattention_id t_biattention_id =
        Some (block_stages 0 0 0 zs @
              [Text_layer (snd (last zs)), Vision_layer (fst (last zs))])"
      by (cases zs) (simp_all add: schedule_def zs_def [symmetric])
    from False show ?thesis
      apply (simp add: encoder_def loop encoder_by_schedule_def sched
          for_each_append bnd_assoc)
      apply (rule bnd_cong [OF refl])
      subgoal for x
        by (cases x) (simp add: bnd_assoc stream_layer_def)
      done
  qed
qed

lemma default_schedule:
  "schedule [0, 1, 2, 3, 4, 5] [18, 19, 20, 21, 22, 23] =
     Some ([Text_layer 0, Text_layer 1, Text_layer 2, Text_layer 3, Text_layer 4, Text_layer 5,
            Text_layer 6, Text_layer 7, Text_layer 8, Text_layer 9, Text_layer 10, Text_layer 11,
            Text_layer 12, Text_layer 13, Text_layer 14, Text_layer 15, Text_layer 16,
            Text_layer 17, Co_layer 0,
            Text_layer 18, Vision_layer 0, Co_layer 1,
            Text_layer 19, Vision_layer 1, Co_layer 2,
            Text_layer 20, Vision_layer 2, Co_layer 3,
            Text_layer 21, Vision_layer 3, Co_layer 4,
            Text_layer 22, Vision_layer 4, Co_layer 5,
            Text_layer 23, Vision_layer 5])"
  by (simp add: schedule_def range_int_def upto_rec1)


lemma default_schedule_counts:
  "(case schedule [0, 1, 2, 3, 4, 5] [18, 19, 20, 21, 22, 23] of
      None \<Rightarrow> False
    | Some stages \<Rightarrow>
        length (filter is_text_layer stages) = 24 \<and>
        length (filter is_vision_layer stages) = 6 \<and>
        length (filter is_co_layer stages) = 6)"
  by (simp add: default_schedule)


lemma combine_heads_error: "combine_heads x = Inl e \<Longrightarrow> e = ValueError"
  by (auto simp: combine_heads_def Let_def split: if_splits)

lemma value_of_error: "value_of r = Inl e \<Longrightarrow> e = TypeError"
  by (cases r) simp_all

lemma mha_error_bound:
  assumes "multi_head_attention queries keys values attn_bias d_key d_value d_model n_head
             dropout_rate cache param_initializer seed name debug = Inl e"
  shows "e \<noteq> UnboundLocalError"
proof -
  obtain q k v where "compute_qkv queries (case keys of None \<Rightarrow> queries | Some k \<Rightarrow> k)
      (case values of None \<Rightarrow> (case keys of None \<Rightarrow> queries | Some k \<Rightarrow> k) | Some v \<Rightarrow> v)
      n_head d_key d_value param_initializer name = (q, k, v)"
    using prod_cases3 by blast
  with assms show ?thesis
    by (auto simp: multi_head_attention_def Let_def bnd_eq_Inl
        split: if_splits option.splits prod.splits
        dest!: split_heads_error attention_error combine_heads_error)
qed

lemma result_of_error:
  "result_of (multi_head_attention queries keys values attn_bias d_key d_value d_model n_head
             dropout_rate cache param_initializer seed name debug) = Inl e \<Longrightarrow>
   e \<noteq> UnboundLocalError"
  by (auto simp: result_of_def bnd_eq_Inl dest: mha_error_bound value_of_error)

lemma encoder_layer_error:
  "encoder_layer enc_input attn_bias n_head d_key d_value d_model d_inner_hid
       prepostprocess_dropout attention_dropout relu_dropout hidden_act preprocess_cmd
       postprocess_cmd param_initializer seed name debug = Inl e \<Longrightarrow> e \<noteq> UnboundLocalError"
  by (auto simp: encoder_layer_def bnd_eq_Inl pre_process_layer_value post_process_layer_value
      positionwise_feed_forward_value dest: result_of_error)

lemma encoder_co_layer_error:
  "encoder_co_layer enc_input enc_vl_input attn_vl_bias co_head co_key co_value co_model d_model
       d_inner_hid v_model v_inner_hid prepostprocess_dropout attention_dropout relu_dropout
       hidden_act preprocess_cmd postprocess_cmd param_initializer seed name debug = Inl e \<Longrightarrow>
   e \<noteq> UnboundLocalError"
  by (auto simp: encoder_co_layer_def bnd_eq_Inl pre_process_layer_value post_process_layer_value
      positionwise_feed_forward_value dest: result_of_error)

lemma stream_layer_error:
  "stream_layer attn_bias n_head d_key d_value d_model d_inner_hid prepostprocess_dropout
       attention_dropout relu_dropout hidden_act preprocess_cmd postprocess_cmd
       param_initializer seed layer_name stream idx = Inl e \<Longrightarrow> e \<noteq> UnboundLocalError"
  by (auto simp: stream_layer_def bnd_eq_Inl dest: encoder_layer_error value_of_error)

lemma co_block_error:
  "co_block attn_vl_bias co_head co_key co_value co_model d_model d_inner_hid v_model v_inner_hid
       prepostprocess_dropout attention_dropout relu_dropout hidden_act preprocess_cmd
       postprocess_cmd param_initializer seed name enc vl block = Inl e \<Longrightarrow>
   e \<noteq> UnboundLocalError"
  by (auto simp: co_block_def bnd_eq_Inl dest: encoder_co_layer_error value_of_error)

lemma run_stages_error:
  assumes "for_each stages (run_stage T V C) s = Inl e"
    and "\<And>x i. T x i = Inl e \<Longrightarrow> P" and "\<And>x i. V x i = Inl e \<Longrightarrow> P"
    and "\<And>x y b. C x y b = Inl e \<Longrightarrow> P"
  shows P
  using assms
proof (induction stages arbitrary: s)
  case Nil
  then show ?case by simp
next
  case (Cons st stages)
  obtain enc vl where s: "s = (enc, vl)" by (cases s)
  show ?case
  proof (cases "run_stage T V C st s")
    case (Inl err)
    with Cons.prems(1) have "run_stage T V C st (enc, vl) = Inl e"
      by (simp add: s)
    then show ?thesis
      using Cons.prems(2-4) by (cases st) (auto simp: bnd_eq_Inl)
  next
    case (Inr s')
    with Cons.prems(1) have "for_each stages (run_stage T V C) s' = Inl e"
      by simp
    then show ?thesis
      using Cons.IH Cons.prems(2-4) by blast
  qed
qed

lemma schedule_empty: "zip v t = [] \<Longrightarrow> schedule v t = None"
  by (simp add: schedule_def del: zip_eq_Nil_iff)

lemma encoder_unbound_iff:
  "encoder enc_input enc_vl_input attn_bias attn_image_bias attn_vl_bias n_layer
       n_head d_key d_value d_model d_inner_hid
       v_head v_key v_value v_model v_inner_hid
       co_head co_key co_value co_model co_inner_hid
       prepostprocess_dropout attention_dropout relu_dropout hidden_act preprocess_cmd
       postprocess_cmd param_initializer v_biattention_id t_biattention_id seed name debug =
     Inl UnboundLocalError \<longleftrightarrow> zip v_biattention_id t_biattention_id = []"
proof (cases "zip v_biattention_id t_biattention_id")
  case Nil
  then show ?thesis
    by (simp add: encoder_schedule encoder_by_schedule_def schedule_empty del: zip_eq_Nil_iff)
next
  case (Cons p ps)
  then obtain stages where st: "schedule v_biattention_id t_biattention_id = Some stages"
    by (simp add: schedule_def)
  have "encoder_by_schedule enc_input enc_vl_input attn_bias attn_image_bias attn_vl_bias n_layer
       n_head d_key d_value d_model d_inner_hid
       v_head v_key v_value v_model v_inner_hid
       co_head co_key co_value co_model co_inner_hid
       prepostprocess_dropout attention_dropout relu_dropout hidden_act preprocess_cmd
       postprocess_cmd param_initializer v_biattention_id t_biattention_id seed name debug \<noteq>
     Inl UnboundLocalError"
    by (auto simp: encoder_by_schedule_def st bnd_eq_Inl pre_process_layer_value
        elim!: run_stages_error dest: stream_layer_error co_block_error)
  with Cons show ?thesis
    by (simp add: encoder_schedule)
qed


lemma combine_heads_shape:
  "combine_heads x = Inr y \<Longrightarrow> length (shape y) = 3"
  by (auto simp: combine_heads_def Let_def split: if_splits)

lemma attention_core_returns_3d:
  assumes "shape q \<noteq> []" "shape k \<noteq> []" "shape v \<noteq> []" "n \<noteq> 0" "0 < d"
    "bias_rank b \<le> 4"
  shows "\<exists>out. bnd (split_heads q n) (\<lambda>qh. bnd (split_heads k n) (\<lambda>kh. bnd (split_heads v n) (\<lambda>vh.
     bnd (scaled_dot_product_attention qh kh vh b d r s) (\<lambda>ctx.
     bnd (combine_heads ctx) (\<lambda>out. Inr (F out)))))) = Inr (F out) \<and> length (shape out) = 3"
proof -
  obtain qh where qh: "split_heads q n = Inr qh"
    using split_heads_returns assms by blast
  obtain kh where kh: "split_heads k n = Inr kh"
    using split_heads_returns assms by blast
  obtain vh where vh: "split_heads v n = Inr vh"
    using split_heads_returns assms by blast
  obtain ctx where ctx: "scaled_dot_product_attention qh kh vh b d r s = Inr ctx"
    using attention_returns assms by blast
  have "length (shape ctx) = 4"
    using attention_rank [OF ctx] split_heads_rank [OF qh] assms by simp
  then obtain out where out: "combine_heads ctx = Inr out"
    using combine_heads_rank4 by blast
  show ?thesis
    using combine_heads_shape [OF out] by (auto simp: qh kh vh ctx out)
qed

lemma mha_returns_3d:
  assumes "inputs_3d queries keys values" "n_head \<noteq> 0" "0 < d_key"
    "bias_rank attn_bias \<le> 4"
  shows "\<exists>out. result_of (multi_head_attention queries keys values attn_bias d_key d_value
           d_model n_head dropout_rate None param_initializer seed name False) = Inr out \<and>
         length (shape out) = 3"
proof -
  let ?ks = "case keys of None \<Rightarrow> queries | Some k \<Rightarrow> k"
  let ?vs = "case values of None \<Rightarrow> ?ks | Some v \<Rightarrow> v"
  let ?F = "\<lambda>out. (Value (Fc out d_model 2 None
                (ParamAttr (name @ ''_output_fc.w_0'') param_initializer)
                (name @ ''_output_fc.b_0'')), None :: cache option)"
  have "\<exists>out.
     bnd (split_heads (Fc queries (d_key * n_head) 2 None
            (ParamAttr (name @ ''_query_fc.w_0'') param_initializer) (name @ ''_query_fc.b_0''))
            n_head) (\<lambda>qh.
     bnd (split_heads (Fc ?ks (d_key * n_head) 2 None
            (ParamAttr (name @ ''_key_fc.w_0'') param_initializer) (name @ ''_key_fc.b_0''))
            n_head) (\<lambda>kh.
     bnd (split_heads (Fc ?vs (d_value * n_head) 2 None
            (ParamAttr (name @ ''_value_fc.w_0'') param_initializer) (name @ ''_value_fc.b_0''))
            n_head) (\<lambda>vh.
     bnd (scaled_dot_product_attention qh kh vh attn_bias d_key dropout_rate seed) (\<lambda>ctx.
     bnd (combine_heads ctx) (\<lambda>out. Inr (?F out)))))) = Inr (?F out) \<and>
     length (shape out) = 3"
    by (rule attention_core_returns_3d) (simp_all add: assms(2,3,4))
  then obtain out where out:
    "bnd (split_heads (Fc queries (d_key * n_head) 2 None
            (ParamAttr (name @ ''_query_fc.w_0'') param_initializer) (name @ ''_query_fc.b_0''))
            n_head) (\<lambda>qh.
     bnd (split_heads (Fc ?ks (d_key * n_head) 2 None
            (ParamAttr (name @ ''_key_fc.w_0'') param_initializer) (name @ ''_key_fc.b_0''))
            n_head) (\<lambda>kh.
     bnd (split_heads (Fc ?vs (d_value * n_head) 2 None
            (ParamAttr (name @ ''_value_fc.w_0'') param_initializer) (name @ ''_value_fc.b_0''))
            n_head) (\<lambda>vh.
     bnd (scaled_dot_product_attention qh kh vh attn_bias d_key dropout_rate seed) (\<lambda>ctx.
     bnd (combine_heads ctx) (\<lambda>out. Inr (?F out)))))) = Inr (?F out)"
    and rank: "length (shape out) = 3"
    by blast
  have "multi_head_attention queries keys values attn_bias d_key d_value
           d_model n_head dropout_rate None param_initializer seed name False = Inr (?F out)"
    using assms(1) out
    by (simp add: multi_head_attention_def inputs_3d_def Let_def compute_qkv_def)
  then show ?thesis
    using rank by (simp add: result_of_def)
qed


lemma encoder_loop_error:
  "encoder_loop enc_input enc_vl_input attn_bias attn_image_bias attn_vl_bias
       n_head d_key d_value d_model d_inner_hid
       v_head v_key v_value v_model v_inner_hid
       co_head co_key co_value co_model
       prepostprocess_dropout attention_dropout relu_dropout hidden_act preprocess_cmd
       postprocess_cmd param_initializer v_biattention_id t_biattention_id seed name = Inl e \<Longrightarrow>
   e \<noteq> UnboundLocalError"
  by (auto simp: encoder_loop_stages bnd_eq_Inl
      elim!: run_stages_error dest: stream_layer_error co_block_error)

lemma encoder_loop_bound:
  assumes "zip v_biattention_id t_biattention_id \<noteq> []"
  shows "case encoder_loop enc_input enc_vl_input attn_bias attn_image_bias attn_vl_bias
       n_head d_key d_value d_model d_inner_hid
       v_head v_key v_value v_model v_inner_hid
       co_head co_key co_value co_model
       prepostprocess_dropout attention_dropout relu_dropout hidden_act preprocess_cmd
       postprocess_cmd param_initializer v_biattention_id t_biattention_id seed name of
         Inl e \<Rightarrow> e \<noteq> UnboundLocalError
       | Inr (enc_input, enc_vl_input, enc_output, enc_vl_output, v_start, t_start, block,
              v_end, t_end) \<Rightarrow>
           enc_output = Some enc_input \<and> enc_vl_output = Some enc_vl_input \<and>
           v_end = Some (fst (last (zip v_biattention_id t_biattention_id))) \<and>
           t_end = Some (snd (last (zip v_biattention_id t_biattention_id)))"
proof (cases "encoder_loop enc_input enc_vl_input attn_bias attn_image_bias attn_vl_bias
       n_head d_key d_value d_model d_inner_hid
       v_head v_key v_value v_model v_inner_hid
       co_head co_key co_value co_model
       prepostprocess_dropout attention_dropout relu_dropout hidden_act preprocess_cmd
       postprocess_cmd param_initializer v_biattention_id t_biattention_id seed name")
  case (Inl e)
  then show ?thesis
    using encoder_loop_error [OF Inl] by simp
next
  case (Inr st)
  then show ?thesis
    using assms
    by (auto simp: encoder_loop_stages bnd_eq_Inr simp del: zip_eq_Nil_iff)
qed

lemma length_shape_feed_forward_spec:
  "length (shape x) = 3 \<Longrightarrow>
   length (shape (feed_forward_spec x d_inner_hid d_hid dropout_rate hidden_act param_initializer
                    seed name)) = 3"
  by (simp add: feed_forward_spec_def Let_def)

lemma rank3_processed:
  "length (shape prev) = 3 \<Longrightarrow> length (shape out) = 3 \<Longrightarrow>
   length (shape (processed (Some prev) out cmds dropout_rate seed name)) = 3"
  by (simp add: rank_processed)

lemma encoder_layer_returns:
  assumes "length (shape enc_input) = 3" "n_head \<noteq> 0" "0 < d_key" "bias_rank attn_bias \<le> 4"
  shows "\<exists>out. encoder_layer enc_input attn_bias n_head d_key d_value d_model d_inner_hid
           prepostprocess_dropout attention_dropout relu_dropout hidden_act preprocess_cmd
           postprocess_cmd param_initializer seed name False = Inr (Value out) \<and>
         length (shape out) = 3"
proof -
  let ?x = "processed None enc_input preprocess_cmd prepostprocess_dropout seed
              (name @ ''_pre_att'')"
  have "inputs_3d ?x None None"
    using assms(1) by (simp add: inputs_3d_def)
  from mha_returns_3d [OF this assms(2,3,4)]
  obtain attn where attn: "result_of (multi_head_attention ?x None None attn_bias d_key d_value
      d_model n_head attention_dropout None param_initializer seed (name @ ''_multi_head_att'')
      False) = Inr attn" and "length (shape attn) = 3"
    by blast
  then show ?thesis
    using assms(1)
    by (simp add: encoder_layer_def pre_process_layer_value post_process_layer_value
        positionwise_feed_forward_value length_shape_feed_forward_spec rank3_processed)
qed

lemma encoder_co_layer_returns:
  assumes "length (shape enc_input) = 3" "length (shape enc_vl_input) = 3"
    "co_head \<noteq> 0" "0 < co_key" "length (shape attn_vl_bias) \<le> 4"
  shows "\<exists>out vl_out. encoder_co_layer enc_input enc_vl_input attn_vl_bias co_head co_key
           co_value co_model d_model d_inner_hid v_model v_inner_hid prepostprocess_dropout
           attention_dropout relu_dropout hidden_act preprocess_cmd postprocess_cmd
           param_initializer seed name False = Inr (Value (out, vl_out)) \<and>
         length (shape out) = 3 \<and> length (shape vl_out) = 3"
proof -
  let ?x = "processed None enc_input preprocess_cmd prepostprocess_dropout seed
              (name @ ''_pre_att'')"
  let ?y = "processed None enc_vl_input preprocess_cmd prepostprocess_dropout seed
              (name @ ''_vl_pre_att'')"
  have xy: "inputs_3d ?x (Some ?y) (Some ?y)" and yx: "inputs_3d ?y (Some ?x) (Some ?x)"
    using assms(1,2) by (simp_all add: inputs_3d_def)
  have lang: "bias_rank (Some (Transpose attn_vl_bias [0, 1, 3, 2])) \<le> 4"
    and vis: "bias_rank (Some attn_vl_bias) \<le> 4"
    using assms(5) by simp_all
  have "\<exists>a. result_of (multi_head_attention ?x (Some ?y) (Some ?y)
      (Some (Transpose attn_vl_bias [0, 1, 3, 2])) co_key co_value d_model co_head
      attention_dropout None param_initializer seed (name @ ''_multi_head_att'') False) = Inr a \<and>
      length (shape a) = 3"
    and "\<exists>b. result_of (multi_head_attention ?y (Some ?x) (Some ?x)
      (Some attn_vl_bias) co_key co_value v_model co_head
      attention_dropout None param_initializer seed (name @ ''_vl_multi_head_att'') False) = Inr b \<and>
      length (shape b) = 3"
    by (rule mha_returns_3d [OF xy assms(3,4) lang], rule mha_returns_3d [OF yx assms(3,4) vis])
  then obtain a b where "result_of (multi_head_attention ?x (Some ?y) (Some ?y)
      (Some (Transpose attn_vl_bias [0, 1, 3, 2])) co_key co_value d_model co_head
      attention_dropout None param_initializer seed (name @ ''_multi_head_att'') False) = Inr a"
    and "length (shape a) = 3"
    and "result_of (multi_head_attention ?y (Some ?x) (Some ?x)
      (Some attn_vl_bias) co_key co_value v_model co_head
      attention_dropout None param_initializer seed (name @ ''_vl_multi_head_att'') False) = Inr b"
    and "length (shape b) = 3"
    by blast
  then show ?thesis
    using assms(1,2)
    by (simp add: encoder_co_layer_def pre_process_layer_value post_process_layer_value
        positionwise_feed_forward_value length_shape_feed_forward_spec rank3_processed)
qed

lemma stages_return:
  assumes "\<And>x i. length (shape x) = 3 \<Longrightarrow> \<exists>y. T x i = Inr y \<and> length (shape y) = 3"
    and "\<And>x i. length (shape x) = 3 \<Longrightarrow> \<exists>y. V x i = Inr y \<and> length (shape y) = 3"
    and "\<And>x y b. length (shape x) = 3 \<Longrightarrow> length (shape y) = 3 \<Longrightarrow>
           \<exists>x' y'. C x y b = Inr (x', y') \<and> length (shape x') = 3 \<and> length (shape y') = 3"
    and "length (shape e) = 3" and "length (shape v) = 3"
  shows "\<exists>e' v'. for_each stages (run_stage T V C) (e, v) = Inr (e', v') \<and>
           length (shape e') = 3 \<and> length (shape v') = 3"
  using assms(4,5)
proof (induction stages arbitrary: e v)
  case Nil
  then show ?case by simp
next
  case (Cons st stages)
  have "\<exists>e1 v1. run_stage T V C st (e, v) = Inr (e1, v1) \<and>
          length (shape e1) = 3 \<and> length (shape v1) = 3"
  proof (cases st)
    case (Text_layer i)
    then show ?thesis
      using assms(1) [OF Cons.prems(1), of i] Cons.prems(2) by auto
  next
    case (Vision_layer i)
    then show ?thesis
      using assms(2) [OF Cons.prems(2), of i] Cons.prems(1) by auto
  next
    case (Co_layer b)
    then show ?thesis
      using assms(3) [OF Cons.prems, of b] by auto
  qed
  then obtain e1 v1 where "run_stage T V C st (e, v) = Inr (e1, v1)"
    and "length (shape e1) = 3" and "length (shape v1) = 3"
    by blast
  then show ?case
    using Cons.IH [of e1 v1] by simp
qed


lemma stream_layer_returns:
  assumes "length (shape x) = 3" "n_head \<noteq> 0" "0 < d_key" "bias_rank attn_bias \<le> 4"
  shows "\<exists>y. stream_layer attn_bias n_head d_key d_value d_model d_inner_hid
           prepostprocess_dropout attention_dropout relu_dropout hidden_act preprocess_cmd
           postprocess_cmd param_initializer seed layer_name x i = Inr y \<and>
         length (shape y) = 3"
  using encoder_layer_returns [OF assms, of d_value d_model d_inner_hid
      prepostprocess_dropout attention_dropout relu_dropout hidden_act preprocess_cmd
      postprocess_cmd param_initializer seed "layer_name @ str i"]
  by (auto simp: stream_layer_def)

lemma co_block_returns:
  assumes "length (shape x) = 3" "length (shape y) = 3" "co_head \<noteq> 0" "0 < co_key"
    "length (shape attn_vl_bias) \<le> 4"
  shows "\<exists>x' y'. co_block attn_vl_bias co_head co_key co_value co_model d_model d_inner_hid
           v_model v_inner_hid prepostprocess_dropout attention_dropout relu_dropout hidden_act
           preprocess_cmd postprocess_cmd param_initializer seed name x y b = Inr (x', y') \<and>
         length (shape x') = 3 \<and> length (shape y') = 3"
  using encoder_co_layer_returns [OF assms, of co_value co_model d_model
      d_inner_hid v_model v_inner_hid prepostprocess_dropout attention_dropout relu_dropout
      hidden_act preprocess_cmd postprocess_cmd param_initializer seed
      "name @ ''_colayer_'' @ str b"]
  by (auto simp: co_block_def)

lemma encoder_loop_final_ids:
  assumes "length (shape enc_input) = 3" "length (shape enc_vl_input) = 3"
    "n_head \<noteq> 0" "0 < d_key" "v_head \<noteq> 0" "0 < v_key" "co_head \<noteq> 0" "0 < co_key"
    "zip v_biattention_id t_biattention_id \<noteq> []"
    "bias_rank attn_bias \<le> 4" "bias_rank attn_image_bias \<le> 4"
    "length (shape attn_vl_bias) \<le> 4"
  shows "final_layer_ids (encoder_loop enc_input enc_vl_input attn_bias attn_image_bias
       attn_vl_bias n_head d_key d_value d_model d_inner_hid
       v_head v_key v_value v_model v_inner_hid
       co_head co_key co_value co_model
       prepostprocess_dropout attention_dropout relu_dropout hidden_act preprocess_cmd
       postprocess_cmd param_initializer v_biattention_id t_biattention_id seed name) =
     Some (last (zip v_biattention_id t_biattention_id))"
proof -
  have "\<exists>e' v'. for_each (block_stages 0 0 0 (zip v_biattention_id t_biattention_id))
          (run_stage
             (stream_layer attn_bias n_head d_key d_value d_model d_inner_hid
                prepostprocess_dropout attention_dropout relu_dropout hidden_act
                preprocess_cmd postprocess_cmd param_initializer seed (name @ ''_layer_''))
             (stream_layer attn_image_bias v_head v_key v_value v_model v_inner_hid
                prepostprocess_dropout attention_dropout relu_dropout hidden_act
                preprocess_cmd postprocess_cmd param_initializer seed (name @ ''_vlayer_''))
             (co_block attn_vl_bias co_head co_key co_value co_model d_model d_inner_hid
                v_model v_inner_hid prepostprocess_dropout attention_dropout relu_dropout
                hidden_act preprocess_cmd postprocess_cmd param_initializer seed name))
          (enc_input, enc_vl_input) = Inr (e', v') \<and>
          length (shape e') = 3 \<and> length (shape v') = 3"
  proof (rule stages_return)
    show "\<exists>y. stream_layer attn_bias n_head d_key d_value d_model d_inner_hid
                prepostprocess_dropout attention_dropout relu_dropout hidden_act
                preprocess_cmd postprocess_cmd param_initializer seed (name @ ''_layer_'') x i =
              Inr y \<and> length (shape y) = 3"
      if "length (shape x) = 3" for x i
      using that assms(3,4,10) by (rule stream_layer_returns)
    show "\<exists>y. stream_layer attn_image_bias v_head v_key v_value v_model v_inner_hid
                prepostprocess_dropout attention_dropout relu_dropout hidden_act
                preprocess_cmd postprocess_cmd param_initializer seed (name @ ''_vlayer_'') x i =
              Inr y \<and> length (shape y) = 3"
      if "length (shape x) = 3" for x i
      using that assms(5,6,11) by (rule stream_layer_returns)
    show "\<exists>x' y'. co_block attn_vl_bias co_head co_key co_value co_model d_model d_inner_hid
                v_model v_inner_hid prepostprocess_dropout attention_dropout relu_dropout
                hidden_act preprocess_cmd postprocess_cmd param_initializer seed name x y b =
              Inr (x', y') \<and> length (shape x') = 3 \<and> length (shape y') = 3"
      if "length (shape x) = 3" "length (shape y) = 3" for x y b
      using that assms(7,8,12) by (rule co_block_returns)
  qed (use assms(1,2) in simp_all)
  then obtain e' v' where "for_each (block_stages 0 0 0 (zip v_biattention_id t_biattention_id))
          (run_stage
             (stream_layer attn_bias n_head d_key d_value d_model d_inner_hid
                prepostprocess_dropout attention_dropout relu_dropout hidden_act
                preprocess_cmd postprocess_cmd param_initializer seed (name @ ''_layer_''))
             (stream_layer attn_image_bias v_head v_key v_value v_model v_inner_hid
                prepostprocess_dropout attention_dropout relu_dropout hidden_act
                preprocess_cmd postprocess_cmd param_initializer seed (name @ ''_vlayer_''))
             (co_block attn_vl_bias co_head co_key co_value co_model d_model d_inner_hid
                v_model v_inner_hid prepostprocess_dropout attention_dropout relu_dropout
                hidden_act preprocess_cmd postprocess_cmd param_initializer seed name))
          (enc_input, enc_vl_input) = Inr (e', v')"
    by blast
  then show ?thesis
    using assms(9)
    by (simp add: encoder_loop_stages final_layer_ids_def del: zip_eq_Nil_iff)
qed

lemma last_zip_same_length:
  "length xs = length ys \<Longrightarrow> ys \<noteq> [] \<Longrightarrow> last (zip xs ys) = (last xs, last ys)"
  by (induction xs ys rule: list_induct2) auto

lemma encoder_ignores_n_layer:
  "encoder enc_input enc_vl_input attn_bias attn_image_bias attn_vl_bias n_layer
       n_head d_key d_value d_model d_inner_hid
       v_head v_key v_value v_model v_inner_hid
       co_head co_key co_value co_model co_inner_hid
       prepostprocess_dropout attention_dropout relu_dropout hidden_act preprocess_cmd
       postprocess_cmd param_initializer v_biattention_id t_biattention_id seed name debug =
   encoder enc_input enc_vl_input attn_bias attn_image_bias attn_vl_bias n_layer'
       n_head d_key d_value d_model d_inner_hid
       v_head v_key v_value v_model v_inner_hid
       co_head co_key co_value co_model co_inner_hid
       prepostprocess_dropout attention_dropout relu_dropout hidden_act preprocess_cmd
       postprocess_cmd param_initializer v_biattention_id t_biattention_id seed name debug"
  by (simp add: encoder_def)

lemma unravel_valid: "n < prod_list ds \<Longrightarrow> list_all2 (<) (unravel ds n) ds"
proof (induction ds arbitrary: n)
  case Nil
  then show ?case by simp
next
  case (Cons d ds)
  from Cons.prems have pos: "0 < prod_list ds"
    by (cases "prod_list ds = 0") simp_all
  have "n div prod_list ds < d"
    using Cons.prems pos by (simp add: less_mult_imp_div_less mult.commute)
  moreover have "n mod prod_list ds < prod_list ds"
    using pos by simp
  ultimately show ?case
    using Cons.IH by simp
qed

lemma ravel_unravel: "n < prod_list ds \<Longrightarrow> ravel ds (unravel ds n) = n"
proof (induction ds arbitrary: n)
  case Nil
  then show ?case by simp
next
  case (Cons d ds)
  from Cons.prems have pos: "0 < prod_list ds"
    by (cases "prod_list ds = 0") simp_all
  then have "ravel ds (unravel ds (n mod prod_list ds)) = n mod prod_list ds"
    by (intro Cons.IH) simp
  then show ?case
    by simp
qed

lemma ravel_bound: "list_all2 (<) idx ds \<Longrightarrow> ravel ds idx < prod_list ds"
proof (induction idx ds rule: list_all2_induct)
  case Nil
  then show ?case by simp
next
  case (Cons i idx d ds)
  have "i * prod_list ds + ravel ds idx < i * prod_list ds + prod_list ds"
    using Cons.IH by simp
  also have "\<dots> = (i + 1) * prod_list ds"
    by simp
  also have "\<dots> \<le> d * prod_list ds"
    using Cons.hyps(1) by (intro mult_le_mono1) simp
  finally show ?case
    by simp
qed

lemma unravel_ravel: "list_all2 (<) idx ds \<Longrightarrow> unravel ds (ravel ds idx) = idx"
proof (induction idx ds rule: list_all2_induct)
  case Nil
  then show ?case by simp
next
  case (Cons i idx d ds)
  have b: "ravel ds idx < prod_list ds"
    using Cons.hyps(2) by (rule ravel_bound)
  then show ?case
    using Cons.IH by simp
qed

lemma source_index_swap [simp]: "source_index [0, 2, 1, 3] [i, j, k, l] = [i, k, j, l]"
  by (simp add: source_index_def upt_rec)

lemma swap_round_trip:
  assumes "m < a * b * c * d"
  shows "ravel [a, c, b, d] (source_index [0, 2, 1, 3] (unravel [a, b, c, d] m)) < a * c * b * d"
    and "ravel [a, b, c, d] (source_index [0, 2, 1, 3] (unravel [a, c, b, d]
           (ravel [a, c, b, d] (source_index [0, 2, 1, 3] (unravel [a, b, c, d] m))))) = m"
proof -
  have m: "m < prod_list [a, b, c, d]"
    using assms by (simp add: mult.assoc)
  from unravel_valid [OF m] obtain i j k l where
    idx: "unravel [a, b, c, d] m = [i, j, k, l]" and v: "i < a" "j < b" "k < c" "l < d"
    by (auto simp: list_all2_Cons2)
  have v': "list_all2 (<) [i, k, j, l] [a, c, b, d]"
    using v by simp
  show "ravel [a, c, b, d] (source_index [0, 2, 1, 3] (unravel [a, b, c, d] m)) < a * c * b * d"
    using ravel_bound [OF v'] by (simp only: idx source_index_swap) (simp add: mult.assoc)
  have "unravel [a, c, b, d] (ravel [a, c, b, d] [i, k, j, l]) = [i, k, j, l]"
    using v' by (rule unravel_ravel)
  then have "ravel [a, b, c, d] (source_index [0, 2, 1, 3] (unravel [a, c, b, d]
           (ravel [a, c, b, d] (source_index [0, 2, 1, 3] (unravel [a, b, c, d] m))))) =
        ravel [a, b, c, d] (unravel [a, b, c, d] m)"
    by (simp only: idx source_index_swap)
  then show "ravel [a, b, c, d] (source_index [0, 2, 1, 3] (unravel [a, c, b, d]
           (ravel [a, c, b, d] (source_index [0, 2, 1, 3] (unravel [a, b, c, d] m))))) = m"
    using ravel_unravel [OF m] by simp
qed

lemma sort_swap [simp]: "sort [0, 2, 1, 3 :: nat] = [0, 1, 2, 3]"
  by simp

lemma transpose_swap:
  "transpose_value (Tensor [a, b, c, d] xs) [0, 2, 1, 3] =
     Some (Tensor [a, c, b, d]
       (map (\<lambda>n. xs ! ravel [a, b, c, d] (source_index [0, 2, 1, 3] (unravel [a, c, b, d] n)))
          [0..<a * c * b * d]))"
  by (simp add: transpose_value_def Let_def upt_rec [of 0 4] upt_rec [of 1 4] upt_rec [of 2 4]
      upt_rec [of 3 4] mult.assoc del: unravel.simps ravel.simps)

lemma transpose_swap_twice:
  assumes "length xs = a * b * c * d"
  shows "\<exists>t1. transpose_value (Tensor [a, b, c, d] xs) [0, 2, 1, 3] = Some t1 \<and>
           transpose_value t1 [0, 2, 1, 3] = Some (Tensor [a, b, c, d] xs)"
proof -
  let ?f = "\<lambda>n. xs ! ravel [a, b, c, d] (source_index [0, 2, 1, 3] (unravel [a, c, b, d] n))"
  let ?ys = "map ?f [0..<a * c * b * d]"
  have "map (\<lambda>m. ?ys ! ravel [a, c, b, d] (source_index [0, 2, 1, 3] (unravel [a, b, c, d] m)))
          [0..<a * b * c * d] = map (\<lambda>m. xs ! m) [0..<a * b * c * d]"
  proof (rule map_cong [OF refl])
    fix m assume "m \<in> set [0..<a * b * c * d]"
    then have m: "m < a * b * c * d" by simp
    show "?ys ! ravel [a, c, b, d] (source_index [0, 2, 1, 3] (unravel [a, b, c, d] m)) = xs ! m"
      using swap_round_trip [OF m] by (simp del: unravel.simps ravel.simps)
  qed
  also have "\<dots> = xs"
    unfolding assms [symmetric] by (rule map_nth)
  finally have eq: "map (\<lambda>m. ?ys ! ravel [a, c, b, d]
          (source_index [0, 2, 1, 3] (unravel [a, b, c, d] m))) [0..<a * b * c * d] = xs" .
  have t1: "transpose_value (Tensor [a, b, c, d] xs) [0, 2, 1, 3] = Some (Tensor [a, c, b, d] ?ys)"
    by (rule transpose_swap)
  have "transpose_value (Tensor [a, c, b, d] ?ys) [0, 2, 1, 3] =
      Some (Tensor [a, b, c, d] (map (\<lambda>m. ?ys ! ravel [a, c, b, d]
          (source_index [0, 2, 1, 3] (unravel [a, b, c, d] m))) [0..<a * b * c * d]))"
    by (rule transpose_swap)
  then have t2: "transpose_value (Tensor [a, c, b, d] ?ys) [0, 2, 1, 3] =
      Some (Tensor [a, b, c, d] xs)"
    by (simp only: eq)
  show ?thesis
    using t1 t2 by blast
qed


lemma reshape_split:
  assumes "length xs = b * s * h" "0 < n" "0 < h" "n dvd h"
  shows "reshape_value (Tensor [b, s, h] xs) [0, 0, int n, int h div int n] =
           Some (Tensor [b, s, n, h div n] xs)"
proof -
  have pos: "0 < h div n"
    using assms(2-4) by (simp add: div_greater_zero_iff dvd_imp_le)
  have d: "int h div int n = int (h div n)"
    by (simp add: zdiv_int)
  have "reshape_dims [b, s, h] [0, 0, int n, int (h div n)] = Some [b, s, n, h div n]"
    using assms(2) pos
    by (simp add: reshape_dims_def copy_dims_def Let_def upt_rec [of 0 4] upt_rec [of 1 4]
        upt_rec [of 2 4] upt_rec [of 3 4])
  moreover have "b * s * n * (h div n) = b * s * h"
    using assms(4) by (simp add: mult.assoc)
  ultimately show ?thesis
    using assms(1) by (simp add: reshape_value_def d mult.assoc)
qed

lemma reshape_merge:
  assumes "length xs = b * s * (n * w)" "0 < n * w"
  shows "reshape_value (Tensor [b, s, n, w] xs) [0, 0, int (n * w)] = Some (Tensor [b, s, n * w] xs)"
proof -
  have "reshape_dims [b, s, n, w] [0, 0, int (n * w)] = Some [b, s, n * w]"
    using assms(2)
    by (simp add: reshape_dims_def copy_dims_def Let_def upt_rec [of 0 3] upt_rec [of 1 3]
        upt_rec [of 2 3] del: of_nat_mult)
  then show ?thesis
    using assms(1) by (simp add: reshape_value_def mult.assoc del: of_nat_mult)
qed

lemma split_combine_value:
  assumes "tensor_value env x = Some t" and "dims t = [b, s, h]" and "well_formed t"
    and "shape x = [s0, s1, int h]" and "0 < n_head" and "0 < h" and "n_head dvd int h"
  shows "\<exists>y z. split_heads x n_head = Inr y \<and> combine_heads y = Inr z \<and>
           tensor_value env z = Some t"
proof -
  define n where "n = nat n_head"
  have n: "n_head = int n" "0 < n" "n dvd h"
    using assms(5,7) by (simp_all add: n_def nat_dvd_iff)
  have w: "n * (h div n) = h"
    using n(3) by simp
  have pos: "0 < h div n"
    using n(2,3) assms(6) by (simp add: div_greater_zero_iff dvd_imp_le)
  obtain xs where t: "t = Tensor [b, s, h] xs" and len: "length xs = b * s * h"
    using assms(2,3) by (cases t) (simp add: well_formed_def mult.assoc)
  let ?r = "Reshape x [0, 0, n_head, int h div n_head]"
  let ?y = "Transpose ?r [0, 2, 1, 3]"
  have split: "split_heads x n_head = Inr ?y"
    using assms(4,5) by (simp add: split_heads_def)
  have "int h div int n = int (h div n)"
    by (simp add: zdiv_int)
  with pos have ne: "int h div n_head \<noteq> 0"
    by (simp add: n(1))
  have sr: "reshape_shape (shape x) [0, 0, n_head, int h div n_head] =
      [s0, s1, n_head, int h div n_head]"
    using assms(4,5) ne
    by (simp add: reshape_shape_def dim_at_def upt_rec [of 0 4] upt_rec [of 1 4]
        upt_rec [of 2 4] upt_rec [of 3 4])
  let ?z = "Reshape (Transpose ?y [0, 2, 1, 3]) [0, 0, int h]"
  have "n_head * (int h div n_head) = int h"
    using assms(7) by simp
  then have combine: "combine_heads ?y = Inr ?z"
    by (simp add: combine_heads_def Let_def sr dim_at_def)
  have vr: "tensor_value env ?r = Some (Tensor [b, s, n, h div n] xs)"
    using assms(1) reshape_split [OF len n(2) assms(6) n(3)] by (simp add: t n(1))
  obtain t1 where t1: "transpose_value (Tensor [b, s, n, h div n] xs) [0, 2, 1, 3] = Some t1"
    and t2: "transpose_value t1 [0, 2, 1, 3] = Some (Tensor [b, s, n, h div n] xs)"
    using transpose_swap_twice [of xs b s n "h div n"] len n(3) by (auto simp: mult.assoc)
  have "reshape_value (Tensor [b, s, n, h div n] xs) [0, 0, int (n * (h div n))] =
          Some (Tensor [b, s, n * (h div n)] xs)"
    by (rule reshape_merge) (simp_all add: len w assms(6))
  then have "tensor_value env ?z = Some t"
    using vr t1 t2 by (simp add: w t)
  with split combine show ?thesis
    by blast
qed

subsection \<open>The attention under a framework that refuses operators\<close>

lemma build_accepted [simp]: "accepts x \<Longrightarrow> build accepts x = Inr x"
  by (simp add: build_def)

lemma build_refused [simp]: "\<not> accepts x \<Longrightarrow> build accepts x = Inl Framework_error"
  by (simp add: build_def)

lemma checked_bnd:
  assumes "m' = Inl Framework_error \<or> m' = Inr x"
    and "f' x = Inl Framework_error \<or> f' x = r"
  shows "bnd m' f' = Inl Framework_error \<or> bnd m' f' = r"
  using assms by auto

lemma split_heads_checked_cases:
  "split_heads_checked accepts x n = Inl Framework_error \<or>
   split_heads_checked accepts x n = split_heads x n"
  by (cases "accepts (Reshape x [0, 0, n, last (shape x) div n])";
      cases "accepts (Transpose (Reshape x [0, 0, n, last (shape x) div n]) [0, 2, 1, 3])")
    (simp_all add: split_heads_checked_def split_heads_def Let_def)

lemma combine_heads_checked_cases:
  "combine_heads_checked accepts x = Inl Framework_error \<or>
   combine_heads_checked accepts x = combine_heads x"
  by (cases "accepts (Transpose x [0, 2, 1, 3])";
      cases "accepts (Reshape (Transpose x [0, 2, 1, 3])
        [0, 0, shape (Transpose x [0, 2, 1, 3]) ! 2 * shape (Transpose x [0, 2, 1, 3]) ! 3])")
    (simp_all add: combine_heads_checked_def combine_heads_def Let_def)

lemma attention_checked_cases:
  "scaled_dot_product_attention_checked accepts q k v b d r s = Inl Framework_error \<or>
   scaled_dot_product_attention_checked accepts q k v b d r s =
     scaled_dot_product_attention q k v b d r s"
proof (cases "pow_neg_half d")
  case (Inl e)
  then show ?thesis
    by (simp add: scaled_dot_product_attention_checked_def scaled_dot_product_attention_def)
next
  case (Inr c)
  then show ?thesis
    unfolding scaled_dot_product_attention_checked_def scaled_dot_product_attention_def
    by (auto simp: build_def Let_def bnd_def split: option.splits sum.splits if_splits)
qed


lemma checked_bnd2:
  assumes "m' = Inl Framework_error \<or> m' = m"
    and "\<And>x. m = Inr x \<Longrightarrow> f' x = Inl Framework_error \<or> f' x = f x"
  shows "bnd m' f' = Inl Framework_error \<or> bnd m' f' = bnd m f"
  using assms by (cases m) auto

lemma build_cases: "build accepts x = Inl Framework_error \<or> build accepts x = Inr x"
  by (simp add: build_def)

lemma compute_qkv_checked_cases:
  "compute_qkv_checked accepts queries keys values n_head d_key d_value param_initializer name =
     Inl Framework_error \<or>
   compute_qkv_checked accepts queries keys values n_head d_key d_value param_initializer name =
     Inr (compute_qkv queries keys values n_head d_key d_value param_initializer name)"
  by (simp add: compute_qkv_checked_def compute_qkv_def Let_def build_def)

lemma attention_core_checked_cases:
  "bnd (split_heads_checked accepts q n) (\<lambda>qh.
   bnd (split_heads_checked accepts k n) (\<lambda>kh.
   bnd (split_heads_checked accepts v n) (\<lambda>vh.
   bnd (scaled_dot_product_attention_checked accepts qh kh vh b d r s) (\<lambda>ctx.
   bnd (combine_heads_checked accepts ctx) (\<lambda>out.
   bnd (build accepts (G out)) (\<lambda>proj_out. Inr (F proj_out))))))) = Inl Framework_error \<or>
   bnd (split_heads_checked accepts q n) (\<lambda>qh.
   bnd (split_heads_checked accepts k n) (\<lambda>kh.
   bnd (split_heads_checked accepts v n) (\<lambda>vh.
   bnd (scaled_dot_product_attention_checked accepts qh kh vh b d r s) (\<lambda>ctx.
   bnd (combine_heads_checked accepts ctx) (\<lambda>out.
   bnd (build accepts (G out)) (\<lambda>proj_out. Inr (F proj_out))))))) =
   bnd (split_heads q n) (\<lambda>qh.
   bnd (split_heads k n) (\<lambda>kh.
   bnd (split_heads v n) (\<lambda>vh.
   bnd (scaled_dot_product_attention qh kh vh b d r s) (\<lambda>ctx.
   bnd (combine_heads ctx) (\<lambda>out. Inr (F (G out)))))))"
  by (intro checked_bnd2 split_heads_checked_cases attention_checked_cases
      combine_heads_checked_cases) (simp add: build_def)


lemma cache_checked_cases:
  "(case cache of
      None \<Rightarrow> Inr (k, v, None)
    | Some c \<Rightarrow>
        bnd (build accepts (Reshape (cache_k c) [0, 0, d_model])) (\<lambda>old_k.
        bnd (build accepts (Concat [old_k, k] 1)) (\<lambda>k.
        bnd (build accepts (Reshape (cache_v c) [0, 0, d_model])) (\<lambda>old_v.
        bnd (build accepts (Concat [old_v, v] 1)) (\<lambda>v.
          Inr (k, v, Some (Cache k v))))))) = Inl Framework_error \<or>
   (case cache of
      None \<Rightarrow> Inr (k, v, None)
    | Some c \<Rightarrow>
        bnd (build accepts (Reshape (cache_k c) [0, 0, d_model])) (\<lambda>old_k.
        bnd (build accepts (Concat [old_k, k] 1)) (\<lambda>k.
        bnd (build accepts (Reshape (cache_v c) [0, 0, d_model])) (\<lambda>old_v.
        bnd (build accepts (Concat [old_v, v] 1)) (\<lambda>v.
          Inr (k, v, Some (Cache k v))))))) =
   Inr (case cache of
          None \<Rightarrow> (k, v, None)
        | Some c \<Rightarrow>
            let k = Concat [Reshape (cache_k c) [0, 0, d_model], k] 1;
                v = Concat [Reshape (cache_v c) [0, 0, d_model], v] 1
            in (k, v, Some (Cache k v)))"
  by (cases cache) (simp_all add: build_def Let_def)

lemma multi_head_attention_checked_cases:
  "multi_head_attention_checked accepts queries keys values attn_bias d_key d_value d_model
     n_head dropout_rate cache param_initializer seed name debug = Inl Framework_error \<or>
   multi_head_attention_checked accepts queries keys values attn_bias d_key d_value d_model
     n_head dropout_rate cache param_initializer seed name debug =
   multi_head_attention queries keys values attn_bias d_key d_value d_model n_head dropout_rate
     cache param_initializer seed name debug"
proof (cases "inputs_3d queries keys values")
  case False
  then show ?thesis
    by (simp add: multi_head_attention_checked_def multi_head_attention_def inputs_3d_def Let_def)
next
  case True
  let ?ks = "case keys of None \<Rightarrow> queries | Some k \<Rightarrow> k"
  let ?vs = "case values of None \<Rightarrow> ?ks | Some v \<Rightarrow> v"
  obtain q k v where qkv:
    "compute_qkv queries ?ks ?vs n_head d_key d_value param_initializer name = (q, k, v)"
    using prod_cases3 by blast
  obtain k' v' cache' where kv: "(case cache of
          None \<Rightarrow> (k, v, None)
        | Some c \<Rightarrow>
            let k = Concat [Reshape (cache_k c) [0, 0, d_model], k] 1;
                v = Concat [Reshape (cache_v c) [0, 0, d_model], v] 1
            in (k, v, Some (Cache k v))) = (k', v', cache')"
    using prod_cases3 by blast
  have base: "multi_head_attention queries keys values attn_bias d_key d_value d_model n_head
      dropout_rate cache param_initializer seed name debug =
      bnd (split_heads q n_head) (\<lambda>qh.
      bnd (split_heads k' n_head) (\<lambda>kh.
      bnd (split_heads v' n_head) (\<lambda>vh.
      bnd (scaled_dot_product_attention qh kh vh attn_bias d_key dropout_rate seed) (\<lambda>ctx.
      bnd (combine_heads ctx) (\<lambda>out.
        Inr (let proj_out = Fc out d_model 2 None
                   (ParamAttr (name @ ''_output_fc.w_0'') param_initializer)
                   (name @ ''_output_fc.b_0'')
             in (if debug then Debug_dict [(''proj_out'', proj_out)] else Value proj_out,
                 cache')))))))"
    using True qkv kv
    by (simp add: multi_head_attention_def inputs_3d_def Let_def)
  consider
    "compute_qkv_checked accepts queries ?ks ?vs n_head d_key d_value param_initializer name =
       Inl Framework_error"
    | "compute_qkv_checked accepts queries ?ks ?vs n_head d_key d_value param_initializer name =
       Inr (q, k, v)"
    using compute_qkv_checked_cases [of accepts queries ?ks ?vs n_head d_key d_value
        param_initializer name] qkv by auto
  then show ?thesis
  proof cases
    case 1
    with True show ?thesis
      by (simp add: multi_head_attention_checked_def inputs_3d_def Let_def)
  next
    case 2
    consider "(case cache of
        None \<Rightarrow> Inr (k, v, None)
      | Some c \<Rightarrow>
          bnd (build accepts (Reshape (cache_k c) [0, 0, d_model])) (\<lambda>old_k.
          bnd (build accepts (Concat [old_k, k] 1)) (\<lambda>k.
          bnd (build accepts (Reshape (cache_v c) [0, 0, d_model])) (\<lambda>old_v.
          bnd (build accepts (Concat [old_v, v] 1)) (\<lambda>v.
            Inr (k, v, Some (Cache k v))))))) = Inl Framework_error"
      | "(case cache of
        None \<Rightarrow> Inr (k, v, None)
      | Some c \<Rightarrow>
          bnd (build accepts (Reshape (cache_k c) [0, 0, d_model])) (\<lambda>old_k.
          bnd (build accepts (Concat [old_k, k] 1)) (\<lambda>k.
          bnd (build accepts (Reshape (cache_v c) [0, 0, d_model])) (\<lambda>old_v.
          bnd (build accepts (Concat [old_v, v] 1)) (\<lambda>v.
            Inr (k, v, Some (Cache k v))))))) = Inr (k', v', cache')"
      using cache_checked_cases [where cache = cache and k = k and v = v and accepts = accepts
          and d_model = d_model] kv by auto
    then show ?thesis
    proof cases
      case 1
      with True 2 show ?thesis
        by (simp add: multi_head_attention_checked_def inputs_3d_def Let_def)
    next
      case 3: 2
      have "multi_head_attention_checked accepts queries keys values attn_bias d_key d_value
          d_model n_head dropout_rate cache param_initializer seed name debug =
          bnd (split_heads_checked accepts q n_head) (\<lambda>qh.
          bnd (split_heads_checked accepts k' n_head) (\<lambda>kh.
          bnd (split_heads_checked accepts v' n_head) (\<lambda>vh.
          bnd (scaled_dot_product_attention_checked accepts qh kh vh attn_bias d_key
                 dropout_rate seed) (\<lambda>ctx.
          bnd (combine_heads_checked accepts ctx) (\<lambda>out.
          bnd (build accepts (Fc out d_model 2 None
                 (ParamAttr (name @ ''_output_fc.w_0'') param_initializer)
                 (name @ ''_output_fc.b_0''))) (\<lambda>proj_out.
            Inr (if debug then Debug_dict [(''proj_out'', proj_out)] else Value proj_out,
                 cache')))))))"
        using True 2 3
        by (simp add: multi_head_attention_checked_def inputs_3d_def Let_def)
      then show ?thesis
        using attention_core_checked_cases [of accepts q n_head k' v' attn_bias d_key
            dropout_rate seed
            "\<lambda>out. Fc out d_model 2 None
                 (ParamAttr (name @ ''_output_fc.w_0'') param_initializer)
                 (name @ ''_output_fc.b_0'')"
            "\<lambda>proj_out. (if debug then Debug_dict [(''proj_out'', proj_out)]
                           else Value proj_out, cache')"]
        by (simp add: base Let_def)
    qed
  qed
qed

lemma split_heads_checked_accepted:
  "(\<And>x. accepts x) \<Longrightarrow> split_heads_checked accepts x n = split_heads x n"
  by (simp add: split_heads_checked_def split_heads_def Let_def)

lemma combine_heads_checked_accepted:
  "(\<And>x. accepts x) \<Longrightarrow> combine_heads_checked accepts x = combine_heads x"
  by (simp add: combine_heads_checked_def combine_heads_def Let_def)

lemma attention_checked_accepted:
  "(\<And>x. accepts x) \<Longrightarrow>
   scaled_dot_product_attention_checked accepts q k v b d r s =
     scaled_dot_product_attention q k v b d r s"
  by (cases "pow_neg_half d"; cases b)
    (simp_all add: scaled_dot_product_attention_checked_def scaled_dot_product_attention_def
      Let_def)

lemma compute_qkv_checked_accepted:
  "(\<And>x. accepts x) \<Longrightarrow>
   compute_qkv_checked accepts queries keys values n_head d_key d_value param_initializer name =
     Inr (compute_qkv queries keys values n_head d_key d_value param_initializer name)"
  by (simp add: compute_qkv_checked_def compute_qkv_def Let_def)

lemma multi_head_attention_checked_accepted:
  assumes "\<And>x. accepts x"
  shows "multi_head_attention_checked accepts queries keys values attn_bias d_key d_value
           d_model n_head dropout_rate cache param_initializer seed name debug =
         multi_head_attention queries keys values attn_bias d_key d_value d_model n_head
           dropout_rate cache param_initializer seed name debug"
proof -
  obtain q k v where qkv: "compute_qkv queries (case keys of None \<Rightarrow> queries | Some k \<Rightarrow> k)
      (case values of None \<Rightarrow> (case keys of None \<Rightarrow> queries | Some k \<Rightarrow> k) | Some v \<Rightarrow> v)
      n_head d_key d_value param_initializer name = (q, k, v)"
    using prod_cases3 by blast
  show ?thesis
    by (cases cache)
      (simp_all add: multi_head_attention_checked_def multi_head_attention_def
        compute_qkv_checked_accepted split_heads_checked_accepted attention_checked_accepted
        combine_heads_checked_accepted assms qkv Let_def)
qed


lemma split_heads_config: "split_heads x n = Inr y \<Longrightarrow> n \<noteq> 0"
  by (auto simp: split_heads_def Let_def split: if_splits)

lemma attention_config: "scaled_dot_product_attention q k v b d r s = Inr ctx \<Longrightarrow> 0 < d"
  by (auto simp: scaled_dot_product_attention_def pow_neg_half_def split: if_splits)

lemma attention_core_value_error_only:
  assumes a: "bnd (split_heads q n) (\<lambda>qh. bnd (split_heads k n) (\<lambda>kh. bnd (split_heads v n) (\<lambda>vh.
     bnd (scaled_dot_product_attention qh kh vh b d r s) (\<lambda>ctx.
     bnd (combine_heads ctx) (\<lambda>out. Inr (F out)))))) = Inl ValueError"
  shows "n \<noteq> 0 \<and> 0 < d \<and> 4 < bias_rank b"
proof -
  from a obtain qh where qh: "split_heads q n = Inr qh"
    by (cases "split_heads q n") (auto dest: split_heads_error)
  from a qh obtain kh where kh: "split_heads k n = Inr kh"
    by (cases "split_heads k n") (auto dest: split_heads_error)
  from a qh kh obtain vh where vh: "split_heads v n = Inr vh"
    by (cases "split_heads v n") (auto dest: split_heads_error)
  from a qh kh vh obtain ctx where ctx: "scaled_dot_product_attention qh kh vh b d r s = Inr ctx"
    by (cases "scaled_dot_product_attention qh kh vh b d r s") (auto dest: attention_error)
  have rank: "length (shape ctx) = max 4 (bias_rank b)"
    using attention_rank [OF ctx] split_heads_rank [OF qh] by simp
  have "combine_heads ctx = Inl ValueError"
    using a qh kh vh ctx by (cases "combine_heads ctx") simp_all
  then have "length (shape ctx) \<noteq> 4"
    by (auto simp: combine_heads_def Let_def split: if_splits)
  with rank have "4 < bias_rank b"
    by (simp add: max_def split: if_splits)
  with split_heads_config [OF qh] attention_config [OF ctx] show ?thesis
    by simp
qed

lemma attention_core_value_error:
  assumes "shape q \<noteq> []" "shape k \<noteq> []" "shape v \<noteq> []" "n \<noteq> 0" "0 < d" "4 < bias_rank b"
  shows "bnd (split_heads q n) (\<lambda>qh. bnd (split_heads k n) (\<lambda>kh. bnd (split_heads v n) (\<lambda>vh.
     bnd (scaled_dot_product_attention qh kh vh b d r s) (\<lambda>ctx.
     bnd (combine_heads ctx) (\<lambda>out. Inr (F out)))))) = Inl ValueError"
proof -
  obtain qh where qh: "split_heads q n = Inr qh"
    using split_heads_returns assms by blast
  obtain kh where kh: "split_heads k n = Inr kh"
    using split_heads_returns assms by blast
  obtain vh where vh: "split_heads v n = Inr vh"
    using split_heads_returns assms by blast
  obtain ctx where ctx: "scaled_dot_product_attention qh kh vh b d r s = Inr ctx"
    using attention_returns assms by blast
  have "length (shape ctx) = max 4 (bias_rank b)"
    using attention_rank [OF ctx] split_heads_rank [OF qh] by simp
  with assms(6) have "combine_heads ctx = Inl ValueError"
    by (simp add: combine_heads_def)
  then show ?thesis
    by (simp add: qh kh vh ctx)
qed

lemma mha_value_error_only:
  assumes "inputs_3d queries keys values"
    and "multi_head_attention queries keys values attn_bias d_key d_value d_model n_head
           dropout_rate cache param_initializer seed name debug = Inl ValueError"
  shows "n_head \<noteq> 0 \<and> 0 < d_key \<and> 4 < bias_rank attn_bias"
  using assms
  by (auto simp: multi_head_attention_def inputs_3d_def Let_def split: prod.splits
      dest!: attention_core_value_error_only)

lemma mha_value_error_bias:
  assumes "inputs_3d queries keys values" "n_head \<noteq> 0" "0 < d_key" "4 < bias_rank attn_bias"
  shows "multi_head_attention queries keys values attn_bias d_key d_value d_model n_head
           dropout_rate cache param_initializer seed name debug = Inl ValueError"
proof (cases cache)
  case None
  with assms(1) show ?thesis
    by (simp add: multi_head_attention_def inputs_3d_def Let_def compute_qkv_def
        attention_core_value_error assms(2,3,4))
next
  case (Some c)
  with assms(1) show ?thesis
    by (simp add: multi_head_attention_def inputs_3d_def Let_def compute_qkv_def
        attention_core_value_error assms(2,3,4))
qed

lemma result_of_value_error:
  "m = Inl ValueError \<Longrightarrow> result_of m = Inl ValueError"
  by (simp add: result_of_def)

lemma encoder_co_layer_value_error:
  assumes "length (shape enc_input) = 3" "length (shape enc_vl_input) = 3"
    "co_head \<noteq> 0" "0 < co_key" "4 < length (shape attn_vl_bias)"
  shows "encoder_co_layer enc_input enc_vl_input attn_vl_bias co_head co_key co_value co_model
           d_model d_inner_hid v_model v_inner_hid prepostprocess_dropout attention_dropout
           relu_dropout hidden_act preprocess_cmd postprocess_cmd param_initializer seed name
           debug = Inl ValueError"
proof -
  let ?x = "processed None enc_input preprocess_cmd prepostprocess_dropout seed
              (name @ ''_pre_att'')"
  let ?y = "processed None enc_vl_input preprocess_cmd prepostprocess_dropout seed
              (name @ ''_vl_pre_att'')"
  have xy: "inputs_3d ?x (Some ?y) (Some ?y)" and yx: "inputs_3d ?y (Some ?x) (Some ?x)"
    using assms(1,2) by (simp_all add: inputs_3d_def)
  have lang: "bias_rank (Some (Transpose attn_vl_bias [0, 1, 3, 2])) \<le> 4"
    by simp
  have vis: "4 < bias_rank (Some attn_vl_bias)"
    using assms(5) by simp
  have "\<exists>a. result_of (multi_head_attention ?x (Some ?y) (Some ?y)
      (Some (Transpose attn_vl_bias [0, 1, 3, 2])) co_key co_value d_model co_head
      attention_dropout None param_initializer seed (name @ ''_multi_head_att'') False) = Inr a \<and>
      length (shape a) = 3"
    by (rule mha_returns_3d [OF xy assms(3,4) lang])
  then obtain a where a: "result_of (multi_head_attention ?x (Some ?y) (Some ?y)
      (Some (Transpose attn_vl_bias [0, 1, 3, 2])) co_key co_value d_model co_head
      attention_dropout None param_initializer seed (name @ ''_multi_head_att'') False) = Inr a"
    by blast
  have b: "result_of (multi_head_attention ?y (Some ?x) (Some ?x)
      (Some attn_vl_bias) co_key co_value v_model co_head
      attention_dropout None param_initializer seed (name @ ''_vl_multi_head_att'') False) =
      Inl ValueError"
    by (rule result_of_value_error) (rule mha_value_error_bias [OF yx assms(3,4) vis])
  from a b show ?thesis
    by (simp add: encoder_co_layer_def pre_process_layer_value)
qed

subsection \<open>Multi-head attention computes the attention formula\<close>




subsection \<open>The error branches of multi-head attention\<close>




subsection \<open>Pre- and post-processing\<close>

text \<open>
  C4.  \<^verbatim>\<open>pre_post_process_layer\<close> applies its commands from left to right: processing
  \<open>cmds @ cmds'\<close> is processing \<open>cmds\<close> and then \<open>cmds'\<close> on the result.  The command \<^verbatim>\<open>a\<close>
  replaces \<^verbatim>\<open>out\<close> by \<^verbatim>\<open>out + prev_out\<close> when a previous output is given and leaves it
  otherwise, so that \<^verbatim>\<open>pre_process_layer\<close> ignores every \<^verbatim>\<open>a\<close>; \<^verbatim>\<open>n\<close> is the layer
  normalization over the last axis with scale initialised to 1 and bias to 0; \<^verbatim>\<open>d\<close> is
  dropout for a nonzero rate only; the empty command string returns \<^verbatim>\<open>out\<close>.  The last
  axis is that of the tensor the command finds: after \<^verbatim>\<open>a\<close> it is the last axis of the sum,
  which has the rank of the operand of higher rank.
\<close>

theorem pre_post_process_layer_commands:
  "pre_post_process_layer prev_out out (cmds @ cmds') dropout_rate seed name False =
     (case pre_post_process_layer prev_out out cmds dropout_rate seed name False of
        Value out' \<Rightarrow> pre_post_process_layer prev_out out' cmds' dropout_rate seed name False
      | Debug_dict d \<Rightarrow> Debug_dict d) \<and>
   pre_post_process_layer (Some prev) out ''a'' dropout_rate seed name False =
     Value (Elementwise_add out prev) \<and>
   pre_post_process_layer None out ''a'' dropout_rate seed name False = Value out \<and>
   pre_process_layer out cmds dropout_rate seed name False =
     pre_process_layer out (filter (\<lambda>c. c \<noteq> CHR ''a'') cmds) dropout_rate seed name False \<and>
   pre_post_process_layer prev_out out ''n'' dropout_rate seed name False =
     Value (Layer_norm out (int (length (shape out)) - 1)
              (ParamAttr (name @ ''_layer_norm_scale'') (Some (Constant 1)))
              (ParamAttr (name @ ''_layer_norm_bias'') (Some (Constant 0)))) \<and>
   pre_post_process_layer (Some prev) out ''an'' dropout_rate seed name False =
     Value (Layer_norm (Elementwise_add out prev)
              (int (max (length (shape out)) (length (shape prev))) - 1)
              (ParamAttr (name @ ''_layer_norm_scale'') (Some (Constant 1)))
              (ParamAttr (name @ ''_layer_norm_bias'') (Some (Constant 0)))) \<and>
   pre_post_process_layer prev_out out ''d'' dropout_rate seed name False =
     Value (if dropout_rate = 0 then out else Dropout out dropout_rate seed) \<and>
   pre_post_process_layer prev_out out '''' dropout_rate seed name False = Value out"
  using processed_no_residual [of out cmds dropout_rate seed name]
  by (simp add: pre_post_process_layer_value processed_append pre_process_layer_def)
     (simp add: processed_def process_step_def)

theorem pre_post_process_layer_commands_witness:
  "pre_post_process_layer (Some (Data ''prev'' [2, 3, 4])) (Data ''out'' [3, 4]) ''an'' 0 0
     ''post'' False =
   Value (Layer_norm (Elementwise_add (Data ''out'' [3, 4]) (Data ''prev'' [2, 3, 4])) 2
            (ParamAttr ''post_layer_norm_scale'' (Some (Constant 1)))
            (ParamAttr ''post_layer_norm_bias'' (Some (Constant 0)))) \<and>
   shape (Elementwise_add (Data ''out'' [3, 4]) (Data ''prev'' [2, 3, 4])) = [2, 3, 4]"
  using pre_post_process_layer_commands
    [of "Some (Data ''prev'' [2, 3, 4])" "Data ''out'' [3, 4]" "[]" "[]" 0 0 "''post''"
      "Data ''prev'' [2, 3, 4]"]
  by (simp add: broadcast_shape_def broadcast_dim_def)

subsection \<open>The co-attention layer\<close>




subsection \<open>The schedule of the encoder\<close>

text \<open>
  C2.  For every pair of biattention id lists \<^verbatim>\<open>encoder\<close> is the run of the schedule: per zipped
  pair the text layers of \<^verbatim>\<open>[t_start, t_layer_id)\<close>, then the vision layers of
  \<^verbatim>\<open>[v_start, v_layer_id)\<close>, then one co-attention layer, each output fed forward; after the
  loop one more encoder layer per stream at the last ids, and one \<^verbatim>\<open>pre_process_layer\<close> per
  stream.  For the default lists the schedule has 24 text encoder layers, 6 vision
  encoder layers and 6 co-attention layers, which both streams pass through.
\<close>

theorem encoder_runs_schedule:
  "encoder enc_input enc_vl_input attn_bias attn_image_bias attn_vl_bias n_layer
       n_head d_key d_value d_model d_inner_hid
       v_head v_key v_value v_model v_inner_hid
       co_head co_key co_value co_model co_inner_hid
       prepostprocess_dropout attention_dropout relu_dropout hidden_act preprocess_cmd
       postprocess_cmd param_initializer v_biattention_id t_biattention_id seed name debug =
   encoder_by_schedule enc_input enc_vl_input attn_bias attn_image_bias attn_vl_bias n_layer
       n_head d_key d_value d_model d_inner_hid
       v_head v_key v_value v_model v_inner_hid
       co_head co_key co_value co_model co_inner_hid
       prepostprocess_dropout attention_dropout relu_dropout hidden_act preprocess_cmd
       postprocess_cmd param_initializer v_biattention_id t_biattention_id seed name debug \<and>
   schedule [0, 1, 2, 3, 4, 5] [18, 19, 20, 21, 22, 23] =
     Some ([Text_layer 0, Text_layer 1, Text_layer 2, Text_layer 3, Text_layer 4, Text_layer 5,
            Text_layer 6, Text_layer 7, Text_layer 8, Text_layer 9, Text_layer 10, Text_layer 11,
            Text_layer 12, Text_layer 13, Text_layer 14, Text_layer 15, Text_layer 16,
            Text_layer 17, Co_layer 0,
            Text_layer 18, Vision_layer 0, Co_layer 1,
            Text_layer 19, Vision_layer 1, Co_layer 2,
            Text_layer 20, Vision_layer 2, Co_layer 3,
            Text_layer 21, Vision_layer 3, Co_layer 4,
            Text_layer 22, Vision_layer 4, Co_layer 5,
            Text_layer 23, Vision_layer 5]) \<and>
   (\<exists>stages. schedule [0, 1, 2, 3, 4, 5] [18, 19, 20, 21, 22, 23] = Some stages \<and>
      length (filter is_text_layer stages) = 24 \<and>
      length (filter is_vision_layer stages) = 6 \<and>
      length (filter is_co_layer stages) = 6)"
  using default_schedule_counts
  by (simp add: encoder_schedule default_schedule)

subsection \<open>The loop variables after the loop\<close>

text \<open>
  C10.  \<^verbatim>\<open>encoder\<close> fails on an unbound local variable if and only if
  \<^verbatim>\<open>zip(v_biattention_id, t_biattention_id)\<close> is empty.  When it is not empty, the loop
  either fails with another error or ends with \<^verbatim>\<open>enc_output\<close>, \<^verbatim>\<open>enc_vl_output\<close>, \<^verbatim>\<open>v_end\<close>
  and \<^verbatim>\<open>t_end\<close> bound: the outputs to the current stream variables and the ends to the ids
  of the last pair.
\<close>

theorem encoder_unbound_local_iff_no_pairs:
  "(encoder enc_input enc_vl_input attn_bias attn_image_bias attn_vl_bias n_layer
       n_head d_key d_value d_model d_inner_hid
       v_head v_key v_value v_model v_inner_hid
       co_head co_key co_value co_model co_inner_hid
       prepostprocess_dropout attention_dropout relu_dropout hidden_act preprocess_cmd
       postprocess_cmd param_initializer v_biattention_id t_biattention_id seed name debug =
     Inl UnboundLocalError \<longleftrightarrow> zip v_biattention_id t_biattention_id = []) \<and>
   (zip v_biattention_id t_biattention_id \<noteq> [] \<longrightarrow>
    (case encoder_loop enc_input enc_vl_input attn_bias attn_image_bias attn_vl_bias
       n_head d_key d_value d_model d_inner_hid
       v_head v_key v_value v_model v_inner_hid
       co_head co_key co_value co_model
       prepostprocess_dropout attention_dropout relu_dropout hidden_act preprocess_cmd
       postprocess_cmd param_initializer v_biattention_id t_biattention_id seed name of
         Inl e \<Rightarrow> e \<noteq> UnboundLocalError
       | Inr (enc_input, enc_vl_input, enc_output, enc_vl_output, v_start, t_start, block,
              v_end, t_end) \<Rightarrow>
           enc_output = Some enc_input \<and> enc_vl_output = Some enc_vl_input \<and>
           v_end = Some (fst (last (zip v_biattention_id t_biattention_id))) \<and>
           t_end = Some (snd (last (zip v_biattention_id t_biattention_id)))))"
proof (intro conjI impI)
  show "encoder enc_input enc_vl_input attn_bias attn_image_bias attn_vl_bias n_layer
       n_head d_key d_value d_model d_inner_hid
       v_head v_key v_value v_model v_inner_hid
       co_head co_key co_value co_model co_inner_hid
       prepostprocess_dropout attention_dropout relu_dropout hidden_act preprocess_cmd
       postprocess_cmd param_initializer v_biattention_id t_biattention_id seed name debug =
     Inl UnboundLocalError \<longleftrightarrow> zip v_biattention_id t_biattention_id = []"
    by (rule encoder_unbound_iff)
next
  assume "zip v_biattention_id t_biattention_id \<noteq> []"
  then show "case encoder_loop enc_input enc_vl_input attn_bias attn_image_bias attn_vl_bias
       n_head d_key d_value d_model d_inner_hid
       v_head v_key v_value v_model v_inner_hid
       co_head co_key co_value co_model
       prepostprocess_dropout attention_dropout relu_dropout hidden_act preprocess_cmd
       postprocess_cmd param_initializer v_biattention_id t_biattention_id seed name of
         Inl e \<Rightarrow> e \<noteq> UnboundLocalError
       | Inr (enc_input, enc_vl_input, enc_output, enc_vl_output, v_start, t_start, block,
              v_end, t_end) \<Rightarrow>
           enc_output = Some enc_input \<and> enc_vl_output = Some enc_vl_input \<and>
           v_end = Some (fst (last (zip v_biattention_id t_biattention_id))) \<and>
           t_end = Some (snd (last (zip v_biattention_id t_biattention_id)))"
    by (rule encoder_loop_bound)
qed

theorem encoder_unbound_local_iff_no_pairs_witness:
  "zip [0 :: int] [1 :: int] \<noteq> [] \<and>
   encoder (Data ''A'' [- 1, 80, 1024]) (Data ''B'' [- 1, 40, 1024]) None None
     (Data ''abBias'' [- 1, 16, 40, 80]) 24 16 64 64 1024 4096 16 64 64 1024 4096
     16 64 64 1024 4096 0 0 0 (Some ''gelu'') [] ''dan'' None [0] [1] 0 ''encoder'' False \<noteq>
     Inl UnboundLocalError \<and>
   encoder (Data ''A'' [- 1, 80, 1024]) (Data ''B'' [- 1, 40, 1024]) None None
     (Data ''abBias'' [- 1, 16, 40, 80]) 24 16 64 64 1024 4096 16 64 64 1024 4096
     16 64 64 1024 4096 0 0 0 (Some ''gelu'') [] ''dan'' None [] [] 0 ''encoder'' False =
     Inl UnboundLocalError"
  using encoder_unbound_local_iff_no_pairs
    [of "Data ''A'' [- 1, 80, 1024]" "Data ''B'' [- 1, 40, 1024]" None None
      "Data ''abBias'' [- 1, 16, 40, 80]" 24 16 64 64 1024 4096 16 64 64 1024 4096
      16 64 64 1024 4096 0 0 0 "Some ''gelu''" "[]" "''dan''" None "[0]" "[1]" 0
      "''encoder''" False]
    encoder_unbound_local_iff_no_pairs
    [of "Data ''A'' [- 1, 80, 1024]" "Data ''B'' [- 1, 40, 1024]" None None
      "Data ''abBias'' [- 1, 16, 40, 80]" 24 16 64 64 1024 4096 16 64 64 1024 4096
      16 64 64 1024 4096 0 0 0 "Some ''gelu''" "[]" "''dan''" None "[]" "[]" 0
      "''encoder''" False]
  by simp

subsection \<open>The depth of the encoder\<close>

text \<open>
  C9, as stated, fails when the two id lists differ in length: \<^verbatim>\<open>zip\<close> stops at the shorter
  list, so with \<^verbatim>\<open>v_biattention_id = [0]\<close> and \<^verbatim>\<open>t_biattention_id = [1, 5]\<close> the encoder layers
  after the loop are applied at the ids \<open>(0, 1)\<close> of the only pair, not at the last elements
  \<open>(0, 5)\<close> of the lists.
\<close>

theorem encoder_deepest_layer_counterexample:
  "final_layer_ids
     (encoder_loop (Data ''A'' [- 1, 80, 1024]) (Data ''B'' [- 1, 40, 1024]) None None
        (Data ''abBias'' [- 1, 16, 40, 80]) 16 64 64 1024 4096 16 64 64 1024 4096
        16 64 64 1024 0 0 0 (Some ''gelu'') [] ''dan'' None [0] [1, 5] 0 ''encoder'') \<noteq>
   Some (last [0], last [1, 5])"
  using encoder_loop_final_ids
    [of "Data ''A'' [- 1, 80, 1024]" "Data ''B'' [- 1, 40, 1024]" 16 64 16 64 16 64
      "[0]" "[1, 5]" None None "Data ''abBias'' [- 1, 16, 40, 80]" 64 1024 4096 64 1024 4096
      64 1024 0 0 0 "Some ''gelu''" "[]" "''dan''" None 0 "''encoder''"]
  by simp

text \<open>
  C9, amended.  The output of \<^verbatim>\<open>encoder\<close> does not depend on \<^verbatim>\<open>n_layer\<close>.  The layers are
  determined by the zipped pairs of the two id lists: whenever the loop completes, the
  encoder layers after it are applied at the vision id and the text id of the last zipped
  pair, and the loop does complete on 3-D inputs with nonzero head counts, positive key
  widths, attention biases of at most four axes and at least one pair.  The ids of the
  last pair are the last elements of \<^verbatim>\<open>v_biattention_id\<close> and \<^verbatim>\<open>t_biattention_id\<close> when the two
  lists have the same length.
\<close>

theorem encoder_depth_from_zipped_ids:
  "encoder enc_input enc_vl_input attn_bias attn_image_bias attn_vl_bias n_layer
       n_head d_key d_value d_model d_inner_hid
       v_head v_key v_value v_model v_inner_hid
       co_head co_key co_value co_model co_inner_hid
       prepostprocess_dropout attention_dropout relu_dropout hidden_act preprocess_cmd
       postprocess_cmd param_initializer v_biattention_id t_biattention_id seed name debug =
   encoder enc_input enc_vl_input attn_bias attn_image_bias attn_vl_bias n_layer'
       n_head d_key d_value d_model d_inner_hid
       v_head v_key v_value v_model v_inner_hid
       co_head co_key co_value co_model co_inner_hid
       prepostprocess_dropout attention_dropout relu_dropout hidden_act preprocess_cmd
       postprocess_cmd param_initializer v_biattention_id t_biattention_id seed name debug \<and>
   (zip v_biattention_id t_biattention_id \<noteq> [] \<longrightarrow>
    (\<forall>st. encoder_loop enc_input enc_vl_input attn_bias attn_image_bias attn_vl_bias
         n_head d_key d_value d_model d_inner_hid
         v_head v_key v_value v_model v_inner_hid
         co_head co_key co_value co_model
         prepostprocess_dropout attention_dropout relu_dropout hidden_act preprocess_cmd
         postprocess_cmd param_initializer v_biattention_id t_biattention_id seed name = Inr st \<longrightarrow>
      final_layer_ids (Inr st) = Some (last (zip v_biattention_id t_biattention_id)))) \<and>
   (length (shape enc_input) = 3 \<and> length (shape enc_vl_input) = 3 \<and>
    n_head \<noteq> 0 \<and> 0 < d_key \<and> v_head \<noteq> 0 \<and> 0 < v_key \<and> co_head \<noteq> 0 \<and> 0 < co_key \<and>
    bias_rank attn_bias \<le> 4 \<and> bias_rank attn_image_bias \<le> 4 \<and>
    length (shape attn_vl_bias) \<le> 4 \<and>
    zip v_biattention_id t_biattention_id \<noteq> [] \<longrightarrow>
    final_layer_ids
      (encoder_loop enc_input enc_vl_input attn_bias attn_image_bias attn_vl_bias
         n_head d_key d_value d_model d_inner_hid
         v_head v_key v_value v_model v_inner_hid
         co_head co_key co_value co_model
         prepostprocess_dropout attention_dropout relu_dropout hidden_act preprocess_cmd
         postprocess_cmd param_initializer v_biattention_id t_biattention_id seed name) =
    Some (last (zip v_biattention_id t_biattention_id))) \<and>
   (length v_biattention_id = length t_biattention_id \<and> t_biattention_id \<noteq> [] \<longrightarrow>
    last (zip v_biattention_id t_biattention_id) =
      (last v_biattention_id, last t_biattention_id))"
proof (intro conjI impI allI)
  show "encoder enc_input enc_vl_input attn_bias attn_image_bias attn_vl_bias n_layer
       n_head d_key d_value d_model d_inner_hid
       v_head v_key v_value v_model v_inner_hid
       co_head co_key co_value co_model co_inner_hid
       prepostprocess_dropout attention_dropout relu_dropout hidden_act preprocess_cmd
       postprocess_cmd param_initializer v_biattention_id t_biattention_id seed name debug =
   encoder enc_input enc_vl_input attn_bias attn_image_bias attn_vl_bias n_layer'
       n_head d_key d_value d_model d_inner_hid
       v_head v_key v_value v_model v_inner_hid
       co_head co_key co_value co_model co_inner_hid
       prepostprocess_dropout attention_dropout relu_dropout hidden_act preprocess_cmd
       postprocess_cmd param_initializer v_biattention_id t_biattention_id seed name debug"
    by (rule encoder_ignores_n_layer)
next
  fix st
  assume pairs: "zip v_biattention_id t_biattention_id \<noteq> []"
    and st: "encoder_loop enc_input enc_vl_input attn_bias attn_image_bias attn_vl_bias
         n_head d_key d_value d_model d_inner_hid
         v_head v_key v_value v_model v_inner_hid
         co_head co_key co_value co_model
         prepostprocess_dropout attention_dropout relu_dropout hidden_act preprocess_cmd
         postprocess_cmd param_initializer v_biattention_id t_biattention_id seed name = Inr st"
  show "final_layer_ids (Inr st) = Some (last (zip v_biattention_id t_biattention_id))"
    using encoder_loop_bound [OF pairs, of enc_input enc_vl_input attn_bias attn_image_bias
        attn_vl_bias n_head d_key d_value d_model d_inner_hid v_head v_key v_value v_model
        v_inner_hid co_head co_key co_value co_model prepostprocess_dropout attention_dropout
        relu_dropout hidden_act preprocess_cmd postprocess_cmd param_initializer seed name]
    by (simp add: st final_layer_ids_def split: prod.splits)
next
  assume "length (shape enc_input) = 3 \<and> length (shape enc_vl_input) = 3 \<and>
    n_head \<noteq> 0 \<and> 0 < d_key \<and> v_head \<noteq> 0 \<and> 0 < v_key \<and> co_head \<noteq> 0 \<and> 0 < co_key \<and>
    bias_rank attn_bias \<le> 4 \<and> bias_rank attn_image_bias \<le> 4 \<and>
    length (shape attn_vl_bias) \<le> 4 \<and>
    zip v_biattention_id t_biattention_id \<noteq> []"
  then show "final_layer_ids
      (encoder_loop enc_input enc_vl_input attn_bias attn_image_bias attn_vl_bias
         n_head d_key d_value d_model d_inner_hid
         v_head v_key v_value v_model v_inner_hid
         co_head co_key co_value co_model
         prepostprocess_dropout attention_dropout relu_dropout hidden_act preprocess_cmd
         postprocess_cmd param_initializer v_biattention_id t_biattention_id seed name) =
    Some (last (zip v_biattention_id t_biattention_id))"
    by (intro encoder_loop_final_ids) (simp_all del: zip_eq_Nil_iff)
next
  assume "length v_biattention_id = length t_biattention_id \<and> t_biattention_id \<noteq> []"
  then show "last (zip v_biattention_id t_biattention_id) =
      (last v_biattention_id, last t_biattention_id)"
    by (simp add: last_zip_same_length)
qed

theorem encoder_depth_from_zipped_ids_witness:
  "length (shape (Data ''A'' [- 1, 80, 1024])) = 3 \<and>
   length (shape (Data ''B'' [- 1, 40, 1024])) = 3 \<and>
   (16 :: int) \<noteq> 0 \<and> (0 :: int) < 64 \<and>
   bias_rank (Some (Data ''aBias'' [- 1, 16, 80, 80])) \<le> 4 \<and>
   bias_rank (Some (Data ''bBias'' [- 1, 16, 40, 40])) \<le> 4 \<and>
   length (shape (Data ''abBias'' [- 1, 16, 40, 80])) \<le> 4 \<and>
   zip [0, 1, 2, 3, 4, 5 :: int] [18, 19, 20, 21, 22, 23 :: int] \<noteq> [] \<and>
   length [0, 1, 2, 3, 4, 5 :: int] = length [18, 19, 20, 21, 22, 23 :: int] \<and>
   final_layer_ids
     (encoder_loop (Data ''A'' [- 1, 80, 1024]) (Data ''B'' [- 1, 40, 1024])
        (Some (Data ''aBias'' [- 1, 16, 80, 80])) (Some (Data ''bBias'' [- 1, 16, 40, 40]))
        (Data ''abBias'' [- 1, 16, 40, 80]) 16 64 64 1024 4096 16 64 64 1024 4096
        16 64 64 1024 0 0 0 (Some ''gelu'') [] ''dan'' None
        [0, 1, 2, 3, 4, 5] [18, 19, 20, 21, 22, 23] 0 ''encoder'') = Some (5, 23) \<and>
   last (zip [0, 1, 2, 3, 4, 5 :: int] [18, 19, 20, 21, 22, 23 :: int]) =
     (last [0, 1, 2, 3, 4, 5], last [18, 19, 20, 21, 22, 23])"
  using encoder_depth_from_zipped_ids
    [of "Data ''A'' [- 1, 80, 1024]" "Data ''B'' [- 1, 40, 1024]"
      "Some (Data ''aBias'' [- 1, 16, 80, 80])" "Some (Data ''bBias'' [- 1, 16, 40, 40])"
      "Data ''abBias'' [- 1, 16, 40, 80]" 24 16 64 64 1024 4096 16 64 64 1024 4096
      16 64 64 1024 4096 0 0 0 "Some ''gelu''" "[]" "''dan''" None
      "[0, 1, 2, 3, 4, 5]" "[18, 19, 20, 21, 22, 23]" 0 "''encoder''" False 12]
  by simp

subsection \<open>Splitting and combining heads\<close>

text \<open>
  C8.  For every variable \<open>x\<close> whose value is a 3-D tensor with a positive last extent \<open>h\<close>,
  known statically, and every positive \<^verbatim>\<open>n_head\<close> dividing \<open>h\<close>,
  \<^verbatim>\<open>__combine_heads(__split_heads(x, n_head))\<close> is defined and has the value of \<open>x\<close>: the split
  into heads with the transpose \<open>[0, 2, 1, 3]\<close>, the transpose back and the merge of the last
  two extents are an exact round trip.
\<close>

theorem combine_heads_split_heads_round_trip:
  assumes "tensor_value env x = Some t" and "dims t = [b, s, h]" and "well_formed t"
    and "shape x = [s0, s1, int h]" and "0 < n_head" and "0 < h" and "n_head dvd int h"
  shows "\<exists>y z. split_heads x n_head = Inr y \<and> combine_heads y = Inr z \<and>
           tensor_value env z = tensor_value env x"
  using split_combine_value [OF assms] assms(1) by simp

theorem combine_heads_split_heads_round_trip_witness:
  "tensor_value (Env (\<lambda>n. Some (Tensor [1, 2, 4] [1, 2, 3, 4, 5, 6, 7, 8 :: int]))
      (\<lambda>n. []) (\<lambda>n. []) (\<lambda>n v. v)) (Data ''x'' [- 1, 2, 4]) =
     Some (Tensor [1, 2, 4] [1, 2, 3, 4, 5, 6, 7, 8]) \<and>
   well_formed (Tensor [1, 2, 4] [1, 2, 3, 4, 5, 6, 7, 8 :: int]) \<and>
   shape (Data ''x'' [- 1, 2, 4]) = [- 1, 2, int 4] \<and> (0 :: int) < 2 \<and> (0 :: nat) < 4 \<and>
   (2 :: int) dvd int 4 \<and>
   (\<exists>y z. split_heads (Data ''x'' [- 1, 2, 4]) 2 = Inr y \<and> combine_heads y = Inr z \<and>
      tensor_value (Env (\<lambda>n. Some (Tensor [1, 2, 4] [1, 2, 3, 4, 5, 6, 7, 8 :: int]))
        (\<lambda>n. []) (\<lambda>n. []) (\<lambda>n v. v)) z =
      Some (Tensor [1, 2, 4] [1, 2, 3, 4, 5, 6, 7, 8]))"
  using combine_heads_split_heads_round_trip
    [of "Env (\<lambda>n. Some (Tensor [1, 2, 4] [1, 2, 3, 4, 5, 6, 7, 8 :: int]))
           (\<lambda>n. []) (\<lambda>n. []) (\<lambda>n v. v)"
        "Data ''x'' [- 1, 2, 4]" "Tensor [1, 2, 4] [1, 2, 3, 4, 5, 6, 7, 8]" 1 2 4 "- 1" 2 2]
  by (simp add: well_formed_def)

subsection \<open>The feed-forward network\<close>

lemma length_affine [simp]: "length (affine w b row) = length b"
  by (simp add: affine_def)

lemma activate_None [simp]: "activate env None = (\<lambda>x. x)"
  by (simp add: activate_def)

lemma length_concat_rows:
  "(\<And>r. r < n \<Longrightarrow> length (f r) = w) \<Longrightarrow> length (concat (map f [0..<n])) = n * w"
  by (induction n) simp_all

lemma row_at_concat:
  assumes "\<And>r. r < n \<Longrightarrow> length (f r) = w" and "r < n"
  shows "row_at w (concat (map f [0..<n])) r = f r"
  using assms
proof (induction n)
  case 0
  then show ?case by simp
next
  case (Suc n)
  have len: "length (concat (map f [0..<n])) = n * w"
    using Suc.prems(1) by (intro length_concat_rows) simp
  show ?case
  proof (cases "r = n")
    case True
    then show ?thesis
      using len Suc.prems(1) [of n] by (simp add: row_at_def)
  next
    case False
    with Suc.prems(2) have r: "r < n" by simp
    then have "r * w + w \<le> n * w"
      by (metis Suc_leI mult_Suc mult_le_mono1 add.commute)
    then have "row_at w (concat (map f [0..<Suc n])) r = row_at w (concat (map f [0..<n])) r"
      using len by (simp add: row_at_def)
    then show ?thesis
      using Suc.IH [OF _ r] Suc.prems(1) by simp
  qed
qed

lemma fc_value_rows:
  assumes "dims t = [b, s, h]" and "0 < size'"
    and "length (env_weight env w_name) = h"
    and "list_all (\<lambda>r. length r = nat size') (env_weight env w_name)"
    and "length (env_bias env b_name) = nat size'"
  shows "fc_value env t size' 2 act w_name b_name =
     Some (Tensor [b, s, nat size']
       (concat (map (\<lambda>r. map (activate env act)
                  (affine (env_weight env w_name) (env_bias env b_name) (row_at h (elems t) r)))
          [0..<b * s])))"
  using assms by (simp add: fc_value_def Let_def)


lemma position_index:
  assumes "i < b" and "j < s"
  shows "i * s + j < b * (s :: nat)"
proof -
  have "i * s + j < i * s + s" using assms(2) by simp
  also have "\<dots> = Suc i * s" by simp
  also have "\<dots> \<le> b * s" using assms(1) by (intro mult_le_mono1) simp
  finally show ?thesis .
qed

lemma feed_forward_value:
  fixes env :: "'a::semiring_0 env"
  assumes x: "tensor_value env x = Some t" and d: "dims t = [b, s, h]"
    and pos: "0 < d_inner_hid" "0 < d_hid"
    and w0: "length (env_weight env (name @ ''_fc_0.w_0'')) = h"
      "list_all (\<lambda>r. length r = nat d_inner_hid) (env_weight env (name @ ''_fc_0.w_0''))"
      "length (env_bias env (name @ ''_fc_0.b_0'')) = nat d_inner_hid"
    and w1: "length (env_weight env (name @ ''_fc_1.w_0'')) = nat d_inner_hid"
      "list_all (\<lambda>r. length r = nat d_hid) (env_weight env (name @ ''_fc_1.w_0''))"
      "length (env_bias env (name @ ''_fc_1.b_0'')) = nat d_hid"
  shows "tensor_value env
           (feed_forward_spec x d_inner_hid d_hid 0 hidden_act param_initializer seed name) =
         Some (Tensor [b, s, nat d_hid]
           (concat (map (\<lambda>r. position_function env hidden_act name (row_at h (elems t) r))
              [0..<b * s])))"
proof -
  let ?f = "\<lambda>r. map (activate env hidden_act)
       (affine (env_weight env (name @ ''_fc_0.w_0'')) (env_bias env (name @ ''_fc_0.b_0''))
          (row_at h (elems t) r))"
  let ?hidden = "Tensor [b, s, nat d_inner_hid] (concat (map ?f [0..<b * s]))"
  have hidden: "fc_value env t d_inner_hid 2 hidden_act (name @ ''_fc_0.w_0'')
      (name @ ''_fc_0.b_0'') = Some ?hidden"
    by (rule fc_value_rows [OF d pos(1) w0])
  have rows: "row_at (nat d_inner_hid) (concat (map ?f [0..<b * s])) r = ?f r"
    if "r < b * s" for r
    by (rule row_at_concat [OF _ that]) (simp add: w0(3))
  have "fc_value env ?hidden d_hid 2 None (name @ ''_fc_1.w_0'') (name @ ''_fc_1.b_0'') =
      Some (Tensor [b, s, nat d_hid]
        (concat (map (\<lambda>r. map (activate env None)
           (affine (env_weight env (name @ ''_fc_1.w_0'')) (env_bias env (name @ ''_fc_1.b_0''))
              (row_at (nat d_inner_hid) (elems ?hidden) r))) [0..<b * s])))"
    by (rule fc_value_rows [OF _ pos(2) w1]) simp
  also have "(map (\<lambda>r. map (activate env None)
           (affine (env_weight env (name @ ''_fc_1.w_0'')) (env_bias env (name @ ''_fc_1.b_0''))
              (row_at (nat d_inner_hid) (elems ?hidden) r))) [0..<b * s]) =
      map (\<lambda>r. position_function env hidden_act name (row_at h (elems t) r)) [0..<b * s]"
    by (rule map_cong) (simp_all add: rows position_function_def)
  finally show ?thesis
    using x hidden by (simp add: feed_forward_spec_def)
qed

text \<open>
  C5.  Without \<^verbatim>\<open>debug\<close>, \<^verbatim>\<open>positionwise_feed_forward\<close> returns the fully connected layer to
  \<^verbatim>\<open>d_inner_hid\<close> with the activation \<^verbatim>\<open>hidden_act\<close> followed by the fully connected layer to
  \<^verbatim>\<open>d_hid\<close>, with dropout between them for a nonzero rate only; with \<^verbatim>\<open>debug\<close> the same variable
  is the entry \<^verbatim>\<open>out\<close> of the returned dictionary.  With \<^verbatim>\<open>dropout_rate = 0\<close> the graph holds no
  dropout, and for every input whose value is a 3-D tensor of extents \<open>[b, s, h]\<close> and
  parameters of the matching sizes the result has the extents \<open>[b, s, d_hid]\<close> and its vector
  at every batch element \<open>i\<close> and position \<open>j\<close> is one and the same function, the composition
  of the two learned affine maps around the activation, of the input vector at \<open>i\<close>, \<open>j\<close>.
\<close>

theorem positionwise_feed_forward_position_wise:
  fixes env :: "'a::semiring_0 env"
  assumes "tensor_value env x = Some t" and "dims t = [b, s, h]"
    and "0 < d_inner_hid" and "0 < d_hid"
    and "length (env_weight env (name @ ''_fc_0.w_0'')) = h"
    and "list_all (\<lambda>r. length r = nat d_inner_hid) (env_weight env (name @ ''_fc_0.w_0''))"
    and "length (env_bias env (name @ ''_fc_0.b_0'')) = nat d_inner_hid"
    and "length (env_weight env (name @ ''_fc_1.w_0'')) = nat d_inner_hid"
    and "list_all (\<lambda>r. length r = nat d_hid) (env_weight env (name @ ''_fc_1.w_0''))"
    and "length (env_bias env (name @ ''_fc_1.b_0'')) = nat d_hid"
  shows "positionwise_feed_forward x d_inner_hid d_hid dropout_rate hidden_act param_initializer
           seed name False =
         Value (feed_forward_spec x d_inner_hid d_hid dropout_rate hidden_act param_initializer
           seed name) \<and>
       (\<exists>hidden. positionwise_feed_forward x d_inner_hid d_hid dropout_rate hidden_act
           param_initializer seed name True =
         Debug_dict [(''hidden'', hidden),
           (''out'', feed_forward_spec x d_inner_hid d_hid dropout_rate hidden_act
              param_initializer seed name)]) \<and>
       feed_forward_spec x d_inner_hid d_hid 0 hidden_act param_initializer seed name =
         Fc (Fc x d_inner_hid 2 hidden_act (ParamAttr (name @ ''_fc_0.w_0'') param_initializer)
               (name @ ''_fc_0.b_0''))
            d_hid 2 None (ParamAttr (name @ ''_fc_1.w_0'') param_initializer)
            (name @ ''_fc_1.b_0'') \<and>
       (\<exists>out. tensor_value env
           (feed_forward_spec x d_inner_hid d_hid 0 hidden_act param_initializer seed name) =
           Some out \<and> dims out = [b, s, nat d_hid] \<and>
         (\<forall>i<b. \<forall>j<s. position_row out i j =
            position_function env hidden_act name (position_row t i j)))"
proof (intro conjI)
  show "positionwise_feed_forward x d_inner_hid d_hid dropout_rate hidden_act param_initializer
           seed name False =
         Value (feed_forward_spec x d_inner_hid d_hid dropout_rate hidden_act param_initializer
           seed name)"
    by (rule positionwise_feed_forward_value)
  show "\<exists>hidden. positionwise_feed_forward x d_inner_hid d_hid dropout_rate hidden_act
           param_initializer seed name True =
         Debug_dict [(''hidden'', hidden),
           (''out'', feed_forward_spec x d_inner_hid d_hid dropout_rate hidden_act
              param_initializer seed name)]"
    by (simp add: positionwise_feed_forward_def feed_forward_spec_def Let_def)
  show "feed_forward_spec x d_inner_hid d_hid 0 hidden_act param_initializer seed name =
         Fc (Fc x d_inner_hid 2 hidden_act (ParamAttr (name @ ''_fc_0.w_0'') param_initializer)
               (name @ ''_fc_0.b_0''))
            d_hid 2 None (ParamAttr (name @ ''_fc_1.w_0'') param_initializer)
            (name @ ''_fc_1.b_0'')"
    by (simp add: feed_forward_spec_def)
  let ?g = "\<lambda>r. position_function env hidden_act name (row_at h (elems t) r)"
  let ?out = "Tensor [b, s, nat d_hid] (concat (map ?g [0..<b * s]))"
  have v: "tensor_value env
      (feed_forward_spec x d_inner_hid d_hid 0 hidden_act param_initializer seed name) =
      Some ?out"
    by (rule feed_forward_value [OF assms])
  have "position_row ?out i j = position_function env hidden_act name (position_row t i j)"
    if "i < b" and "j < s" for i j
  proof -
    have "row_at (nat d_hid) (concat (map ?g [0..<b * s])) (i * s + j) = ?g (i * s + j)"
      by (rule row_at_concat [OF _ position_index [OF that]])
        (simp add: position_function_def assms(10))
    then show ?thesis
      by (simp add: position_row_def assms(2))
  qed
  with v show "\<exists>out. tensor_value env
           (feed_forward_spec x d_inner_hid d_hid 0 hidden_act param_initializer seed name) =
           Some out \<and> dims out = [b, s, nat d_hid] \<and>
         (\<forall>i<b. \<forall>j<s. position_row out i j =
            position_function env hidden_act name (position_row t i j))"
    by simp
qed


theorem positionwise_feed_forward_position_wise_witness:
  "\<exists>out. tensor_value (Env (\<lambda>n. Some (Tensor [1, 2, 2] [1, - 2, 3, 4 :: int]))
         (\<lambda>n. if n = ''ffn_fc_0.w_0'' then [[1, 0, - 1], [0, 1, 1]] else [[1, 0], [0, 1], [1, 1]])
         (\<lambda>n. if n = ''ffn_fc_0.b_0'' then [0, 0, 1] else [1, 0]) (\<lambda>a v. max 0 v))
       (feed_forward_spec (Data ''x'' [- 1, 2, 2]) 3 2 0 (Some ''relu'') None 0 ''ffn'') =
       Some out \<and> dims out = [1, 2, 2] \<and>
     position_row out 0 0 = [2, 0] \<and> position_row out 0 1 = [6, 6]"
proof -
  let ?env = "(Env (\<lambda>n. Some (Tensor [1, 2, 2] [1, - 2, 3, 4 :: int]))
         (\<lambda>n. if n = ''ffn_fc_0.w_0'' then [[1, 0, - 1], [0, 1, 1]] else [[1, 0], [0, 1], [1, 1]])
         (\<lambda>n. if n = ''ffn_fc_0.b_0'' then [0, 0, 1] else [1, 0]) (\<lambda>a v. max 0 v))"
  let ?t = "Tensor [1, 2, 2] [1, - 2, 3, 4 :: int]"
  have "\<exists>out. tensor_value ?env
       (feed_forward_spec (Data ''x'' [- 1, 2, 2]) 3 2 0 (Some ''relu'') None 0 ''ffn'') =
       Some out \<and> dims out = [1, 2, nat 2] \<and>
     (\<forall>i<1. \<forall>j<2. position_row out i j =
        position_function ?env (Some ''relu'') ''ffn'' (position_row ?t i j))"
    by (rule positionwise_feed_forward_position_wise
        [where env = ?env and x = "Data ''x'' [- 1, 2, 2]" and t = ?t
           and b = 1 and s = 2 and h = 2 and d_inner_hid = 3 and d_hid = 2 and name = "''ffn''"
           and hidden_act = "Some ''relu''" and param_initializer = None and seed = 0
           and dropout_rate = 0, THEN conjunct2, THEN conjunct2, THEN conjunct2])
      (simp_all add: well_formed_def)
  then obtain out where out: "tensor_value ?env
       (feed_forward_spec (Data ''x'' [- 1, 2, 2]) 3 2 0 (Some ''relu'') None 0 ''ffn'') =
       Some out" "dims out = [1, 2, nat 2]"
    and rows: "\<And>i j. i < 1 \<Longrightarrow> j < 2 \<Longrightarrow> position_row out i j =
        position_function ?env (Some ''relu'') ''ffn'' (position_row ?t i j)"
    by blast
  have "position_function ?env (Some ''relu'') ''ffn'' (position_row ?t 0 0) = [2, 0]"
    by (simp add: position_function_def position_row_def row_at_def affine_def activate_def
        upt_rec [of 0] upt_rec [of 1] upt_rec [of 2] upt_rec [of "Suc 0"])
  moreover have "position_function ?env (Some ''relu'') ''ffn'' (position_row ?t 0 1) = [6, 6]"
    by (simp add: position_function_def position_row_def row_at_def affine_def activate_def
        upt_rec [of 0] upt_rec [of 1] upt_rec [of 2] upt_rec [of "Suc 0"])
  ultimately show ?thesis
    using out rows [of 0 0] rows [of 0 1] by simp
qed

end
